theory Spec2Isabelle
  imports Complex_Main
begin

section \<open>The job coordination layer of run\_af3complex.py\<close>

text \<open>
  The script keeps a registry of the jobs in progress in a text file
  (\<open>processing_file.txt\<close>), runs an external inference engine on every job of a
  backlog, runs it a second time without the ligand components for a job that has
  ligands, and keeps the better of the two result directories.

  The model is a shallow embedding of \<open>add_to_processing\<close>,
  \<open>remove_from_processing\<close>, \<open>is_in_processing\<close>, \<open>load_json_objects\<close> and of the
  loop of \<open>main\<close>. The file system, the standard output and the engine's runs are an
  explicit state (\<open>world\<close>); a Python exception is a value (\<open>Raised e\<close>).

  Conventions of the model.
  \<^item> Text is a list of 8-bit characters, read as the code points 0 to 255.
  \<^item> A JSON object is a record of the keys the script inspects (\<open>name\<close>,
    \<open>sequences\<close>, \<open>ranking_score\<close>), each optional and of the type the engine's
    interface gives it, and of the remaining keys.
  \<^item> The output directory is a table from entry names to directories, a directory a
    table from file names to files; a job name is one path component.
  \<^item> The engine is a parameter: a function from its input and the output directory
    to an exit status and the new output directory. It is taken to return, and to
    touch nothing but the output directory.
  \<^item> The transient input files (\<open>tempfile.NamedTemporaryFile\<close>, \<open>os.remove\<close>)
    live outside the output directory and are not part of the state.
\<close>

subsection \<open>Text: line boundaries, reading in text mode, lower case\<close>

definition LF :: char where
  "LF = CHR 0x0A"

definition CR :: char where
  "CR = CHR 0x0D"

text \<open>The boundaries of \<open>str.splitlines\<close> among the code points below 256.\<close>

definition is_line_boundary :: "char \<Rightarrow> bool" where
  "is_line_boundary c \<longleftrightarrow>
     c \<in> set [CHR 0x0A, CHR 0x0B, CHR 0x0C, CHR 0x0D, CHR 0x1C, CHR 0x1D, CHR 0x1E, CHR 0x85]"

text \<open>
  \<open>f.read()\<close> of a file opened in text mode with the default \<open>newline=None\<close>: the
  sequences CR LF and CR become LF. Writing translates nothing on Linux (the script
  needs \<open>fcntl\<close>).
\<close>

fun universal_newlines :: "string \<Rightarrow> string" where
  "universal_newlines [] = []"
| "universal_newlines [c] = (if c = CR then [LF] else [c])"
| "universal_newlines (c # d # s) =
     (if c = CR
      then (if d = LF then LF # universal_newlines s else LF # universal_newlines (d # s))
      else c # universal_newlines (d # s))"

text \<open>
  \<open>str.splitlines()\<close>: a line ends at a boundary (CR LF is one boundary), the
  boundaries are dropped, and a last line is returned only if it is not empty.
\<close>

fun splitlines :: "string \<Rightarrow> string list" where
  "splitlines [] = []"
| "splitlines [c] = (if is_line_boundary c then [[]] else [[c]])"
| "splitlines (c # d # s) =
     (if is_line_boundary c
      then [] # (if c = CR \<and> d = LF then splitlines s else splitlines (d # s))
      else (case splitlines (d # s) of [] \<Rightarrow> [[c]] | l # ls \<Rightarrow> (c # l) # ls))"

text \<open>\<open>str.lower()\<close> on the code points below 256: A to Z, and U+00C0 to U+00DE but
  the multiplication sign U+00D7, move up by 32.\<close>

definition lower_char :: "char \<Rightarrow> char" where
  "lower_char c =
     (let n = (of_char c :: nat)
      in if (65 \<le> n \<and> n \<le> 90) \<or> (192 \<le> n \<and> n \<le> 222 \<and> n \<noteq> 215)
         then char_of (n + 32) else c)"

definition lower :: "string \<Rightarrow> string" where
  "lower s = map lower_char s"

subsection \<open>JSON values, scores, files\<close>

datatype json = JNull | JBool bool | JNum rat | JStr string | JArr "json list"
  | JObj "(string \<times> json) list"

text \<open>A component of a job's \<open>sequences\<close> is a JSON object, its keys in order.\<close>

type_synonym component = "(string \<times> json) list"

text \<open>
  A ranking score is what \<open>json.load\<close> makes of a JSON number: a Python int or a
  finite float, with its exact value, or one of the three floats that are not finite.
\<close>

datatype score = Num rat | NaN | Infinity | Neg_Infinity

text \<open>Python's \<open>a > b\<close> on these numbers.\<close>

fun py_gt :: "score \<Rightarrow> score \<Rightarrow> bool" where
  "py_gt (Num a) (Num b) \<longleftrightarrow> a > b"
| "py_gt NaN _ \<longleftrightarrow> False"
| "py_gt _ NaN \<longleftrightarrow> False"
| "py_gt Infinity Infinity \<longleftrightarrow> False"
| "py_gt Infinity _ \<longleftrightarrow> True"
| "py_gt Neg_Infinity _ \<longleftrightarrow> False"
| "py_gt (Num a) Infinity \<longleftrightarrow> False"
| "py_gt (Num a) Neg_Infinity \<longleftrightarrow> True"

record json_object =
  name_field :: "string option"
  sequences_field :: "component list option"
  ranking_score_field :: "score option"
  other_fields :: "(string \<times> json) list"

text \<open>What \<open>json.load\<close> does with a file: it raises, or returns a value that is a
  dict or is not one.\<close>

datatype json_file = Malformed | NotObject | Object json_object

type_synonym directory = "string \<rightharpoonup> json_file"

datatype py_error = FileNotFoundError | JSONDecodeError | AttributeError | KeyError
  | TypeError | CalledProcessError

datatype outcome = Normal | Raised py_error

text \<open>\<open>--input_json_type\<close>, and what \<open>json.dump\<close> writes for the engine: the job
  itself, or the job in a list of one element.\<close>

datatype input_json_type = Af3 | Server

datatype payload = Plain json_object | Listed "json_object list"

definition dump_input :: "input_json_type \<Rightarrow> json_object \<Rightarrow> payload" where
  "dump_input ty j = (if ty = Server then Listed [j] else Plain j)"

type_synonym engine = "payload \<Rightarrow> (string \<rightharpoonup> directory) \<Rightarrow> bool \<times> (string \<rightharpoonup> directory)"

subsection \<open>The state\<close>

text \<open>What the script prints, and the runs of the engine, in order.\<close>

datatype event =
    Print_already_in_processing string
  | Print_already_generated string
  | Print_contains_ligands bool
  | Print_processing string
  | Run_engine payload
  | Print_first_model string
  | Print_generating_secondary string
  | Print_second_model string
  | Print_engine_error string
  | Print_with_ligands_score score
  | Print_without_ligands_score score
  | Print_compare_error py_error

record world =
  processing_file :: "string option"
  output_dir :: "string \<rightharpoonup> directory"
  events :: "event list"

definition emit :: "event \<Rightarrow> world \<Rightarrow> world" where
  "emit e w = w\<lparr>events := events w @ [e]\<rparr>"

subsection \<open>The registry\<close>

text \<open>
  \<open>add_to_processing\<close>: mode \<open>a+\<close> creates a missing file and appends every write
  at the end of the file, wherever \<open>seek\<close> has moved to.
\<close>

definition add_to_processing :: "world \<Rightarrow> string \<Rightarrow> world" where
  "add_to_processing w object_name =
     (let content = (case processing_file w of None \<Rightarrow> [] | Some s \<Rightarrow> s);
          current_objects = splitlines (universal_newlines content);
          content' = (if object_name \<notin> set current_objects
                      then content @ object_name @ [LF] else content)
      in emit (Print_processing object_name) (w\<lparr>processing_file := Some content'\<rparr>))"

text \<open>
  \<open>remove_from_processing\<close>: mode \<open>r+\<close> raises FileNotFoundError on a missing
  file, which the function passes over. The file is truncated and the lines other than
  the name are written back, each with a line feed.
\<close>

definition remove_from_processing :: "world \<Rightarrow> string \<Rightarrow> world" where
  "remove_from_processing w object_name =
     (case processing_file w of
        None \<Rightarrow> w
      | Some content \<Rightarrow>
          (let current_objects = splitlines (universal_newlines content)
           in w\<lparr>processing_file :=
                  Some (concat (map (\<lambda>obj. obj @ [LF])
                                    (filter (\<lambda>obj. obj \<noteq> object_name) current_objects)))\<rparr>))"

definition is_in_processing :: "world \<Rightarrow> string \<Rightarrow> bool \<times> world" where
  "is_in_processing w object_name =
     (case processing_file w of
        None \<Rightarrow> (False, w)
      | Some content \<Rightarrow>
          (let current_objects = splitlines (universal_newlines content)
           in if object_name \<in> set current_objects
              then (True, emit (Print_already_in_processing object_name) w)
              else (False, w)))"

text \<open>The registry's \<open>contains\<close>: the value \<open>is_in_processing\<close> returns.\<close>

definition contains :: "world \<Rightarrow> string \<Rightarrow> bool" where
  "contains w object_name = fst (is_in_processing w object_name)"

text \<open>The lines of the backing store as the three functions read them.\<close>

definition store_lines :: "world \<Rightarrow> string list" where
  "store_lines w =
     (case processing_file w of None \<Rightarrow> [] | Some content \<Rightarrow> splitlines (universal_newlines content))"

subsection \<open>The backlog\<close>

datatype backlog_document = Single json_object | Several "json_object list"

fun load_json_objects :: "backlog_document \<Rightarrow> json_object list" where
  "load_json_objects (Several data) = data"
| "load_json_objects (Single data) = [data]"

subsection \<open>The executor: lines 113 to 160 of main\<close>

text \<open>\<open>'ligand' in seq\<close> for a dict.\<close>

definition has_ligand :: "component \<Rightarrow> bool" where
  "has_ligand seq \<longleftrightarrow> ''ligand'' \<in> set (map fst seq)"

definition get_sequences :: "json_object \<Rightarrow> component list" where
  "get_sequences j = (case sequences_field j of None \<Rightarrow> [] | Some s \<Rightarrow> s)"

text \<open>Lines 128 to 130: the secondary job definition, from the object loaded from the
  data file of the primary run, whose name is \<open>n\<close>.\<close>

definition without_ligands :: "json_object \<Rightarrow> string \<Rightarrow> json_object" where
  "without_ligands new_json n =
     new_json\<lparr>name_field := Some (n @ ''_without_ligands''),
              sequences_field := Some (filter (\<lambda>seq. \<not> has_ligand seq) (get_sequences new_json))\<rparr>"

text \<open>\<open>subprocess.run(command, check=True)\<close>: the engine runs on the output
  directory; a non-zero exit raises CalledProcessError.\<close>

definition run_engine :: "engine \<Rightarrow> payload \<Rightarrow> world \<Rightarrow> world \<times> outcome" where
  "run_engine eng p w =
     (let w1 = emit (Run_engine p) w;
          r = eng p (output_dir w1)
      in (w1\<lparr>output_dir := snd r\<rparr>, if fst r then Normal else Raised CalledProcessError))"

definition read_file :: "(string \<rightharpoonup> directory) \<Rightarrow> string \<Rightarrow> string \<Rightarrow> json_file option" where
  "read_file fs folder file_name =
     (case fs folder of None \<Rightarrow> None | Some d \<Rightarrow> d file_name)"

text \<open>The body of the \<open>try\<close>, lines 114 to 152.\<close>

definition executor_try ::
  "engine \<Rightarrow> input_json_type \<Rightarrow> world \<Rightarrow> json_object \<Rightarrow> string \<Rightarrow> bool \<Rightarrow> world \<times> outcome" where
  "executor_try eng ty w individual_json protein_id contains_ligand =
     (let w1 = add_to_processing w protein_id
      in case run_engine eng (dump_input ty individual_json) w1 of
           (w2, Raised e) \<Rightarrow> (w2, Raised e)
         | (w2, Normal) \<Rightarrow>
             (let w3 = emit (Print_first_model protein_id) w2
              in if \<not> contains_ligand then (w3, Normal)
                 else (case read_file (output_dir w3) (lower protein_id)
                              (lower protein_id @ ''_data.json'') of
                         None \<Rightarrow> (w3, Normal)
                       | Some Malformed \<Rightarrow> (w3, Raised JSONDecodeError)
                       | Some NotObject \<Rightarrow> (w3, Raised TypeError)
                       | Some (Object new_json) \<Rightarrow>
                           (case name_field new_json of
                              None \<Rightarrow> (w3, Raised KeyError)
                            | Some n \<Rightarrow>
                                (let w4 = emit (Print_generating_secondary protein_id) w3
                                 in case run_engine eng
                                           (dump_input ty (without_ligands new_json n)) w4 of
                                      (w5, Raised e) \<Rightarrow> (w5, Raised e)
                                    | (w5, Normal) \<Rightarrow>
                                        (emit (Print_second_model protein_id) w5, Normal))))))"

text \<open>
  The \<open>try\<close> statement: CalledProcessError is caught and printed, any other
  exception goes on after the \<open>finally\<close> block, which removes the name from the
  registry in every case.
\<close>

definition executor ::
  "engine \<Rightarrow> input_json_type \<Rightarrow> world \<Rightarrow> json_object \<Rightarrow> string \<Rightarrow> bool \<Rightarrow> world \<times> outcome" where
  "executor eng ty w individual_json protein_id contains_ligand =
     (case executor_try eng ty w individual_json protein_id contains_ligand of
        (w1, Raised CalledProcessError) \<Rightarrow>
          (remove_from_processing (emit (Print_engine_error protein_id) w1) protein_id, Normal)
      | (w1, r) \<Rightarrow> (remove_from_processing w1 protein_id, r))"

subsection \<open>The result selector: lines 161 to 188 of main\<close>

text \<open>\<open>open\<close>, \<open>json.load\<close> and \<open>.get('ranking_score', -1)\<close>.\<close>

definition read_ranking_score ::
  "(string \<rightharpoonup> directory) \<Rightarrow> string \<Rightarrow> string \<Rightarrow> py_error + score" where
  "read_ranking_score fs folder file_name =
     (case read_file fs folder file_name of
        None \<Rightarrow> Inl FileNotFoundError
      | Some Malformed \<Rightarrow> Inl JSONDecodeError
      | Some NotObject \<Rightarrow> Inl AttributeError
      | Some (Object summary) \<Rightarrow>
          Inr (case ranking_score_field summary of None \<Rightarrow> Num (- 1) | Some v \<Rightarrow> v))"

definition rmtree :: "world \<Rightarrow> string \<Rightarrow> world \<times> outcome" where
  "rmtree w folder =
     (case output_dir w folder of
        None \<Rightarrow> (w, Raised FileNotFoundError)
      | Some d \<Rightarrow> (w\<lparr>output_dir := (output_dir w)(folder := None)\<rparr>, Normal))"

text \<open>\<open>os.rename\<close> of a directory to a name that is free (the selector has just
  removed it).\<close>

definition rename :: "world \<Rightarrow> string \<Rightarrow> string \<Rightarrow> world \<times> outcome" where
  "rename w src dst =
     (case output_dir w src of
        None \<Rightarrow> (w, Raised FileNotFoundError)
      | Some d \<Rightarrow> (w\<lparr>output_dir := (output_dir w)(src := None, dst \<mapsto> d)\<rparr>, Normal))"

text \<open>The body of the \<open>try\<close>, lines 164 to 185.\<close>

definition selector_try :: "world \<Rightarrow> string \<Rightarrow> world \<times> outcome" where
  "selector_try w protein_id =
     (let protein_folder = lower protein_id;
          without_ligand_folder = lower protein_id @ ''_without_ligands''
      in case read_ranking_score (output_dir w) protein_folder
                (lower protein_id @ ''_summary_confidences.json'') of
           Inl e \<Rightarrow> (w, Raised e)
         | Inr protein_ranking_score \<Rightarrow>
             (let w1 = emit (Print_with_ligands_score protein_ranking_score) w
              in case read_ranking_score (output_dir w1) without_ligand_folder
                        (lower protein_id @ ''_without_ligands_summary_confidences.json'') of
                   Inl e \<Rightarrow> (w1, Raised e)
                 | Inr without_ligand_ranking_score \<Rightarrow>
                     (let w2 = emit (Print_without_ligands_score without_ligand_ranking_score) w1
                      in if py_gt protein_ranking_score without_ligand_ranking_score
                         then rmtree w2 without_ligand_folder
                         else (case rmtree w2 protein_folder of
                                 (w3, Raised e) \<Rightarrow> (w3, Raised e)
                               | (w3, Normal) \<Rightarrow> rename w3 without_ligand_folder protein_folder))))"

text \<open>
  Line 187 is \<open>except (FileNotFoundError, json.JSONDecondeError, KeyError) as e\<close>.
  Python evaluates this tuple when an exception reaches the clause. The module
  \<open>json\<close> has the exception class \<open>JSONDecodeError\<close> and no attribute of any other
  spelling: looking one up raises AttributeError.
\<close>

definition json_exception_class :: "string \<Rightarrow> py_error + py_error" where
  "json_exception_class attr =
     (if attr = ''JSONDecodeError'' then Inr JSONDecodeError else Inl AttributeError)"

definition except_classes :: "py_error + py_error list" where
  "except_classes =
     (case json_exception_class ''JSONDecondeError'' of
        Inl e \<Rightarrow> Inl e
      | Inr c \<Rightarrow> Inr [FileNotFoundError, c, KeyError])"

definition result_selector :: "world \<Rightarrow> string \<Rightarrow> world \<times> outcome" where
  "result_selector w protein_id =
     (case selector_try w protein_id of
        (w1, Normal) \<Rightarrow> (w1, Normal)
      | (w1, Raised e) \<Rightarrow>
          (case except_classes of
             Inl e' \<Rightarrow> (w1, Raised e')
           | Inr classes \<Rightarrow>
               if e \<in> set classes then (emit (Print_compare_error e) w1, Normal)
               else (w1, Raised e)))"

subsection \<open>The dispatcher: the loop of main\<close>

text \<open>Line 88: \<open>or\<close> evaluates \<open>is_in_processing\<close> only when neither directory
  exists.\<close>

definition skip_check :: "world \<Rightarrow> string \<Rightarrow> bool \<times> world" where
  "skip_check w nm =
     (if output_dir w nm \<noteq> None \<or> output_dir w (lower nm) \<noteq> None then (True, w)
      else is_in_processing w nm)"

definition process_job :: "engine \<Rightarrow> input_json_type \<Rightarrow> world \<Rightarrow> json_object \<Rightarrow> world \<times> outcome" where
  "process_job eng ty w individual_json =
     (case name_field individual_json of
        None \<Rightarrow> (w, Raised KeyError)
      | Some protein_id \<Rightarrow>
          (case skip_check w protein_id of
             (True, w0) \<Rightarrow> (emit (Print_already_generated protein_id) w0, Normal)
           | (False, w0) \<Rightarrow>
               (let contains_ligand = list_ex has_ligand (get_sequences individual_json);
                    w1 = emit (Print_contains_ligands contains_ligand) w0
                in case executor eng ty w1 individual_json protein_id contains_ligand of
                     (w2, Raised e) \<Rightarrow> (w2, Raised e)
                   | (w2, Normal) \<Rightarrow>
                       if contains_ligand then result_selector w2 protein_id
                       else (w2, Normal))))"

fun dispatcher :: "engine \<Rightarrow> input_json_type \<Rightarrow> world \<Rightarrow> json_object list \<Rightarrow> world \<times> outcome" where
  "dispatcher eng ty w [] = (w, Normal)"
| "dispatcher eng ty w (individual_json # rest) =
     (case process_job eng ty w individual_json of
        (w1, Raised e) \<Rightarrow> (w1, Raised e)
      | (w1, Normal) \<Rightarrow> dispatcher eng ty w1 rest)"

definition main :: "engine \<Rightarrow> input_json_type \<Rightarrow> world \<Rightarrow> backlog_document \<Rightarrow> world \<times> outcome" where
  "main eng ty w doc = dispatcher eng ty w (load_json_objects doc)"

subsection \<open>Notions used in the statements\<close>

text \<open>A name that can stand on one line of the registry: it has no line boundary.\<close>

definition boundary_free :: "string \<Rightarrow> bool" where
  "boundary_free l \<longleftrightarrow> list_all (\<lambda>c. \<not> is_line_boundary c) l"

text \<open>A content whose last line is ended: it is empty or ends with a line feed.\<close>

definition terminated :: "string \<Rightarrow> bool" where
  "terminated a \<longleftrightarrow> a = [] \<or> last a = LF"

text \<open>The content \<open>add_to_processing\<close> reads: a missing file is created empty.\<close>

definition store_content :: "world \<Rightarrow> string" where
  "store_content w = (case processing_file w of None \<Rightarrow> [] | Some s \<Rightarrow> s)"

text \<open>The inputs of the engine's runs so far, in order.\<close>

fun engine_runs :: "event list \<Rightarrow> payload list" where
  "engine_runs [] = []"
| "engine_runs (Run_engine p # es) = p # engine_runs es"
| "engine_runs (e # es) = engine_runs es"

text \<open>The inputs of the engine's runs between two states.\<close>

definition engine_runs_during :: "world \<Rightarrow> world \<Rightarrow> payload list" where
  "engine_runs_during w w' = engine_runs (drop (length (events w)) (events w'))"

text \<open>The two summary files the selector reads are there and hold JSON objects.\<close>

definition candidates_readable :: "world \<Rightarrow> string \<Rightarrow> bool" where
  "candidates_readable w protein_id \<longleftrightarrow>
     (case read_ranking_score (output_dir w) (lower protein_id)
             (lower protein_id @ ''_summary_confidences.json'') of
        Inl e \<Rightarrow> False
      | Inr p \<Rightarrow>
          (case read_ranking_score (output_dir w) (lower protein_id @ ''_without_ligands'')
                  (lower protein_id @ ''_without_ligands_summary_confidences.json'') of
             Inl e \<Rightarrow> False
           | Inr q \<Rightarrow> True))"

subsection \<open>Sample data\<close>

definition protein_component :: component where
  "protein_component = [(''protein'', JObj [(''id'', JStr ''A''), (''sequence'', JStr ''MKV'')])]"

definition ligand_component :: component where
  "ligand_component = [(''ligand'', JObj [(''id'', JStr ''L''), (''ccdCodes'', JArr [JStr ''ATP''])])]"

definition ligand_job :: json_object where
  "ligand_job = \<lparr>name_field = Some ''Job1'',
                  sequences_field = Some [protein_component, ligand_component, protein_component],
                  ranking_score_field = None,
                  other_fields = [(''modelSeeds'', JArr [JNum 1])]\<rparr>"

definition plain_job :: json_object where
  "plain_job = \<lparr>name_field = Some ''Job2'',
                 sequences_field = Some [protein_component],
                 ranking_score_field = None,
                 other_fields = [(''modelSeeds'', JArr [JNum 1])]\<rparr>"

text \<open>A job without ligand components, of the given name.\<close>

definition named_job :: "string \<Rightarrow> json_object" where
  "named_job n = \<lparr>name_field = Some n, sequences_field = Some [protein_component],
                   ranking_score_field = None, other_fields = []\<rparr>"

definition summary :: "score option \<Rightarrow> json_file" where
  "summary s = Object \<lparr>name_field = None, sequences_field = None, ranking_score_field = s,
                        other_fields = []\<rparr>"

text \<open>A result directory as the engine's interface describes it.\<close>

definition result_directory :: "string \<Rightarrow> json_file \<Rightarrow> json_file \<Rightarrow> directory" where
  "result_directory stem data_file summary_file =
     [stem @ ''_data.json'' \<mapsto> data_file, stem @ ''_summary_confidences.json'' \<mapsto> summary_file]"

definition empty_world :: world where
  "empty_world = \<lparr>processing_file = None, output_dir = Map.empty, events = []\<rparr>"


text \<open>An engine that always exits with a non-zero status and writes nothing.\<close>

definition failing_engine :: engine where
  "failing_engine p fs = (False, fs)"

definition payload_job :: "payload \<Rightarrow> json_object option" where
  "payload_job p = (case p of Plain j \<Rightarrow> Some j | Listed [j] \<Rightarrow> Some j | Listed _ \<Rightarrow> None)"

text \<open>
  An engine that follows the interface: it succeeds on the jobs \<open>succeeds\<close> accepts,
  and writes the directory of the job's lowercased name, with the data file
  \<open>data_of\<close> gives and a summary of the score \<open>score_of\<close> gives.
\<close>

definition sample_engine ::
  "(json_object \<Rightarrow> bool) \<Rightarrow> (json_object \<Rightarrow> json_file) \<Rightarrow> (json_object \<Rightarrow> score option) \<Rightarrow> engine" where
  "sample_engine succeeds data_of score_of p fs =
     (case payload_job p of
        None \<Rightarrow> (False, fs)
      | Some j \<Rightarrow>
          (case name_field j of
             None \<Rightarrow> (False, fs)
           | Some n \<Rightarrow>
               if succeeds j
               then (True, fs(lower n \<mapsto> result_directory (lower n) (data_of j) (summary (score_of j))))
               else (False, fs)))"

definition has_ligands :: "json_object \<Rightarrow> bool" where
  "has_ligands j = list_ex has_ligand (get_sequences j)"

definition store_of :: "string \<Rightarrow> world" where
  "store_of content = \<lparr>processing_file = Some content, output_dir = Map.empty, events = []\<rparr>"

definition sample_store :: world where
  "sample_store = store_of (''a'' @ [LF] @ ''b'' @ [LF] @ ''a'' @ [LF] @ ''c'' @ [LF])"

definition clean_store :: world where
  "clean_store = store_of (''b'' @ [LF] @ ''c'' @ [LF])"

definition unterminated_store :: world where
  "unterminated_store = store_of ''foo''"

definition scored_engine :: "score option \<Rightarrow> score option \<Rightarrow> engine" where
  "scored_engine p q = sample_engine (\<lambda>j. True) Object (\<lambda>j. if has_ligands j then p else q)"

text \<open>An engine that fails on a job without ligand components.\<close>

definition secondary_failing_engine :: engine where
  "secondary_failing_engine = sample_engine has_ligands Object (\<lambda>j. Some (Num (4/5)))"

text \<open>An engine whose data file is not JSON.\<close>

definition corrupt_engine :: engine where
  "corrupt_engine = sample_engine (\<lambda>j. True) (\<lambda>j. Malformed) (\<lambda>j. Some (Num (4/5)))"

text \<open>An engine that writes its result and then exits with a non-zero status.\<close>

definition partial_engine :: engine where
  "partial_engine p fs = (False, snd (scored_engine (Some (Num (4/5))) (Some (Num (3/5))) p fs))"

definition busy_world :: world where
  "busy_world = \<lparr>processing_file = Some (''Job9'' @ [LF]), output_dir = Map.empty, events = []\<rparr>"

text \<open>The two candidate directories of \<open>Job1\<close>, with the given summary files.\<close>

definition candidates_with :: "json_file \<Rightarrow> json_file \<Rightarrow> world" where
  "candidates_with primary_summary ligand_free_summary =
     \<lparr>processing_file = None,
      output_dir =
        [''job1'' \<mapsto> result_directory ''job1'' (Object ligand_job) primary_summary,
         ''job1_without_ligands'' \<mapsto>
            result_directory ''job1_without_ligands''
              (Object (without_ligands ligand_job ''Job1'')) ligand_free_summary],
      events = []\<rparr>"

definition candidates :: "score option \<Rightarrow> score option \<Rightarrow> world" where
  "candidates p q = candidates_with (summary p) (summary q)"

definition primary_only :: world where
  "primary_only =
     \<lparr>processing_file = None,
      output_dir = [''job1'' \<mapsto> result_directory ''job1'' (Object ligand_job)
                                   (summary (Some (Num (4/5))))],
      events = []\<rparr>"

text \<open>Only a ligand-free directory, left by a pass that was interrupted.\<close>

definition stale_world :: world where
  "stale_world =
     \<lparr>processing_file = None,
      output_dir = [''job1_without_ligands'' \<mapsto>
                      result_directory ''job1_without_ligands''
                        (Object (without_ligands ligand_job ''Job1''))
                        (summary (Some (Num (9/10))))],
      events = []\<rparr>"

section \<open>The registry\<close>

subsection \<open>Lines written and read back\<close>

lemma LF_boundary [simp]: "is_line_boundary LF"
  by (simp add: is_line_boundary_def LF_def)

lemma LF_neq_CR [simp]: "LF \<noteq> CR" "CR \<noteq> LF"
  by (simp_all add: LF_def CR_def)

lemma universal_newlines_Cons:
  "universal_newlines (c # s) =
     (if c = CR then LF # universal_newlines (if s \<noteq> [] \<and> hd s = LF then tl s else s)
      else c # universal_newlines s)"
  by (cases s) auto

lemma splitlines_Cons:
  "splitlines (c # s) =
     (if is_line_boundary c
      then [] # splitlines (if c = CR \<and> s \<noteq> [] \<and> hd s = LF then tl s else s)
      else (case splitlines s of [] \<Rightarrow> [[c]] | l # ls \<Rightarrow> (c # l) # ls))"
  by (cases s) auto

lemma boundary_free_not_CR: "boundary_free (c # l) \<Longrightarrow> c \<noteq> CR"
  by (auto simp: boundary_free_def is_line_boundary_def CR_def)

lemma universal_newlines_line:
  "boundary_free l \<Longrightarrow> universal_newlines (l @ LF # s) = l @ LF # universal_newlines s"
proof (induction l)
  case Nil
  show ?case by (simp add: universal_newlines_Cons)
next
  case (Cons c l)
  from Cons.prems have "c \<noteq> CR" by (rule boundary_free_not_CR)
  with Cons show ?case by (simp add: universal_newlines_Cons boundary_free_def)
qed

lemma splitlines_line:
  "boundary_free l \<Longrightarrow> splitlines (l @ LF # s) = l # splitlines s"
proof (induction l)
  case Nil
  show ?case by (simp add: splitlines_Cons)
next
  case (Cons c l)
  then show ?case by (simp add: splitlines_Cons boundary_free_def)
qed

lemma splitlines_boundary_free: "l \<in> set (splitlines s) \<Longrightarrow> boundary_free l"
proof (induction s arbitrary: l rule: splitlines.induct)
  case 1
  then show ?case by simp
next
  case (2 c)
  then show ?case by (auto simp: boundary_free_def split: if_splits)
next
  case (3 c d s)
  then show ?case by (auto simp: boundary_free_def split: if_splits list.splits)
qed

lemma list_all_splitlines: "list_all boundary_free (splitlines s)"
  by (simp add: list_all_iff splitlines_boundary_free)

lemma universal_newlines_written:
  "list_all boundary_free ls \<Longrightarrow>
   universal_newlines (concat (map (\<lambda>obj. obj @ [LF]) ls)) = concat (map (\<lambda>obj. obj @ [LF]) ls)"
  by (induction ls) (simp_all add: universal_newlines_line)

lemma splitlines_written:
  "list_all boundary_free ls \<Longrightarrow> splitlines (concat (map (\<lambda>obj. obj @ [LF]) ls)) = ls"
  by (induction ls) (simp_all add: splitlines_line)

lemma read_written:
  "list_all boundary_free ls \<Longrightarrow>
   splitlines (universal_newlines (concat (map (\<lambda>obj. obj @ [LF]) ls))) = ls"
  by (simp add: universal_newlines_written splitlines_written)

lemma store_lines_remove:
  "store_lines (remove_from_processing w n) = filter (\<lambda>obj. obj \<noteq> n) (store_lines w)"
proof (cases "processing_file w")
  case None
  then show ?thesis by (simp add: store_lines_def remove_from_processing_def)
next
  case (Some content)
  have "list_all boundary_free (filter (\<lambda>obj. obj \<noteq> n) (splitlines (universal_newlines content)))"
    using list_all_splitlines [of "universal_newlines content"] by (simp add: list_all_iff)
  from read_written [OF this] Some show ?thesis
    by (simp add: store_lines_def remove_from_processing_def)
qed

lemma store_lines_store_of:
  "store_lines (store_of content) = splitlines (universal_newlines content)"
  by (simp add: store_lines_def store_of_def)

text \<open>
  Claim C10. For every existing backing store and every name,
  \<open>remove_from_processing\<close> writes back the lines other than the name, every one of
  them, unchanged and in their order, and no line equal to the name: the lines read
  from the new store are the old lines without the occurrences of the name. The
  output directory and the printed output are not touched.
\<close>

theorem remove_from_processing_keeps_others:
  assumes "processing_file w = Some content"
  shows "store_lines (remove_from_processing w n) = filter (\<lambda>obj. obj \<noteq> n) (store_lines w)
       \<and> n \<notin> set (store_lines (remove_from_processing w n))
       \<and> processing_file (remove_from_processing w n) =
           Some (concat (map (\<lambda>obj. obj @ [LF])
                   (filter (\<lambda>obj. obj \<noteq> n) (splitlines (universal_newlines content)))))
       \<and> output_dir (remove_from_processing w n) = output_dir w
       \<and> events (remove_from_processing w n) = events w"
proof -
  have "store_lines (remove_from_processing w n) = filter (\<lambda>obj. obj \<noteq> n) (store_lines w)"
    by (rule store_lines_remove)
  moreover from this have "n \<notin> set (store_lines (remove_from_processing w n))"
    by simp
  ultimately show ?thesis
    using assms by (simp add: remove_from_processing_def)
qed

theorem remove_from_processing_keeps_others_witness:
  "processing_file sample_store = Some (''a'' @ [LF] @ ''b'' @ [LF] @ ''a'' @ [LF] @ ''c'' @ [LF])
   \<and> store_lines sample_store = [''a'', ''b'', ''a'', ''c'']
   \<and> store_lines (remove_from_processing sample_store ''a'') = [''b'', ''c'']
   \<and> processing_file (remove_from_processing sample_store ''a'') = Some (''b'' @ [LF] @ ''c'' @ [LF])"
proof -
  have h: "processing_file sample_store
             = Some (''a'' @ [LF] @ ''b'' @ [LF] @ ''a'' @ [LF] @ ''c'' @ [LF])"
    by (simp add: sample_store_def store_of_def)
  have l: "store_lines sample_store = [''a'', ''b'', ''a'', ''c'']"
    by (simp add: sample_store_def store_lines_store_of LF_def CR_def is_line_boundary_def)
  have u: "universal_newlines (''a'' @ [LF] @ ''b'' @ [LF] @ ''a'' @ [LF] @ ''c'' @ [LF])
             = ''a'' @ [LF] @ ''b'' @ [LF] @ ''a'' @ [LF] @ ''c'' @ [LF]"
    by (simp add: LF_def CR_def)
  have s: "splitlines (''a'' @ [LF] @ ''b'' @ [LF] @ ''a'' @ [LF] @ ''c'' @ [LF])
             = [''a'', ''b'', ''a'', ''c'']"
    by (simp add: LF_def CR_def is_line_boundary_def)
  from remove_from_processing_keeps_others [OF h, of "''a''"] h l u s
  show ?thesis by simp
qed

subsection \<open>Adding a line\<close>


lemma universal_newlines_Nil_iff: "universal_newlines s = [] \<longleftrightarrow> s = []"
  by (induction s rule: universal_newlines.induct) auto

lemma universal_newlines_append:
  "terminated a \<Longrightarrow> universal_newlines (a @ b) = universal_newlines a @ universal_newlines b"
proof (induction a rule: universal_newlines.induct)
  case 1
  show ?case by simp
next
  case (2 c)
  then show ?case by (simp add: terminated_def universal_newlines_Cons)
next
  case (3 c d s)
  then show ?case by (auto simp: terminated_def split: if_splits)
qed

lemma terminated_universal_newlines:
  "terminated a \<Longrightarrow> terminated (universal_newlines a)"
proof (induction a rule: universal_newlines.induct)
  case 1
  show ?case by (simp add: terminated_def)
next
  case (2 c)
  then show ?case by (simp add: terminated_def)
next
  case (3 c d s)
  then show ?case by (auto simp: terminated_def universal_newlines_Nil_iff split: if_splits)
qed

lemma splitlines_Nil_iff: "splitlines s = [] \<longleftrightarrow> s = []"
  by (induction s rule: splitlines.induct) (auto split: list.splits)

lemma splitlines_append:
  "terminated a \<Longrightarrow> splitlines (a @ b) = splitlines a @ splitlines b"
proof (induction a rule: splitlines.induct)
  case 1
  show ?case by simp
next
  case (2 c)
  then show ?case by (simp add: terminated_def splitlines_Cons)
next
  case (3 c d s)
  then show ?case
    by (auto simp: terminated_def splitlines_Nil_iff split: if_splits list.splits)
qed

lemma lines_append_name:
  assumes "terminated content" and "boundary_free n"
  shows "splitlines (universal_newlines (content @ n @ [LF])) =
         splitlines (universal_newlines content) @ [n]"
proof -
  have n: "universal_newlines (n @ [LF]) = n @ [LF]"
    using universal_newlines_line [OF assms(2), of "[]"] by simp
  have "splitlines (universal_newlines (content @ n @ [LF])) =
        splitlines (universal_newlines content @ n @ [LF])"
    using universal_newlines_append [OF assms(1), of "n @ [LF]"] n by simp
  also have "\<dots> = splitlines (universal_newlines content) @ splitlines (n @ [LF])"
    by (rule splitlines_append [OF terminated_universal_newlines [OF assms(1)]])
  also have "splitlines (n @ [LF]) = [n]"
    using splitlines_line [OF assms(2), of "[]"] by simp
  finally show ?thesis .
qed

lemma store_lines_content:
  "store_lines w = splitlines (universal_newlines (store_content w))"
  by (simp add: store_lines_def store_content_def split: option.splits)

lemma add_present:
  "n \<in> set (store_lines w) \<Longrightarrow>
   processing_file (add_to_processing w n) = processing_file w"
  by (cases "processing_file w")
     (simp_all add: add_to_processing_def store_lines_def emit_def)

lemma add_present_lines:
  "n \<in> set (store_lines w) \<Longrightarrow> store_lines (add_to_processing w n) = store_lines w"
  by (simp add: store_lines_def add_present)

lemma add_absent:
  "n \<notin> set (store_lines w) \<Longrightarrow>
   processing_file (add_to_processing w n) = Some (store_content w @ n @ [LF])"
  by (simp add: add_to_processing_def store_lines_content store_content_def emit_def)

lemma add_absent_lines:
  assumes "terminated (store_content w)" and "boundary_free n" and "n \<notin> set (store_lines w)"
  shows "store_lines (add_to_processing w n) = store_lines w @ [n]"
  using lines_append_name [OF assms(1,2)] add_absent [OF assms(3)]
  by (simp add: store_lines_def [of "add_to_processing w n"] store_lines_content [of w])

text \<open>
  Claim C7, amended. For every backing store that is missing, empty or ends with a line
  feed, and every name without a line boundary: if the name is among the lines of the
  store, \<open>add_to_processing\<close> leaves the content as it is; calling it twice gives
  the content that calling it once gives; after the call the name is among the lines,
  and on exactly one line if it was on at most one line before.
\<close>

theorem add_to_processing_idempotent:
  assumes "terminated (store_content w)" and "boundary_free n"
  shows "(n \<in> set (store_lines w) \<longrightarrow> processing_file (add_to_processing w n) = processing_file w)
       \<and> processing_file (add_to_processing (add_to_processing w n) n)
           = processing_file (add_to_processing w n)
       \<and> n \<in> set (store_lines (add_to_processing w n))
       \<and> (count_list (store_lines w) n \<le> 1
            \<longrightarrow> count_list (store_lines (add_to_processing w n)) n = 1)"
proof (cases "n \<in> set (store_lines w)")
  case True
  then have "store_lines (add_to_processing w n) = store_lines w"
    by (rule add_present_lines)
  moreover from True have "0 < count_list (store_lines w) n"
    using count_list_0_iff [of "store_lines w" n] by auto
  ultimately show ?thesis
    using True add_present [of n "add_to_processing w n"] add_present [of n w] by auto
next
  case False
  from add_absent_lines [OF assms False]
  have l: "store_lines (add_to_processing w n) = store_lines w @ [n]" .
  then have "n \<in> set (store_lines (add_to_processing w n))" by simp
  from add_present [OF this] l False show ?thesis
    using count_list_0_iff [of "store_lines w" n] by simp
qed

theorem add_to_processing_idempotent_witness:
  "terminated (store_content clean_store) \<and> boundary_free ''b'' \<and> boundary_free ''d''
   \<and> ''b'' \<in> set (store_lines clean_store)
   \<and> count_list (store_lines clean_store) ''b'' \<le> 1
   \<and> count_list (store_lines clean_store) ''d'' \<le> 1
   \<and> processing_file (add_to_processing clean_store ''b'') = processing_file clean_store
   \<and> processing_file (add_to_processing (add_to_processing clean_store ''b'') ''b'')
       = processing_file (add_to_processing clean_store ''b'')
   \<and> count_list (store_lines (add_to_processing clean_store ''b'')) ''b'' = 1
   \<and> processing_file (add_to_processing (add_to_processing clean_store ''d'') ''d'')
       = processing_file (add_to_processing clean_store ''d'')
   \<and> ''d'' \<in> set (store_lines (add_to_processing clean_store ''d''))
   \<and> count_list (store_lines (add_to_processing clean_store ''d'')) ''d'' = 1"
proof -
  have t: "terminated (store_content clean_store)"
    by (simp add: clean_store_def store_of_def store_content_def terminated_def)
  have b: "boundary_free ''b''" and d: "boundary_free ''d''"
    by (simp_all add: boundary_free_def is_line_boundary_def)
  have l: "store_lines clean_store = [''b'', ''c'']"
    by (simp add: clean_store_def store_lines_store_of LF_def CR_def is_line_boundary_def)
  from add_to_processing_idempotent [OF t b] add_to_processing_idempotent [OF t d] t b d l
  show ?thesis by simp
qed

text \<open>
  The claim as it stands fails on a store whose last line is not ended: the content
  \<open>foo\<close> and the name \<open>bar\<close>. The first call appends to the last line, the name is
  on no line, and the second call writes again. It fails as well for a name with a line
  feed, which is never found among the lines, and on a store that holds the name twice,
  which is left as it is.
\<close>

theorem add_to_processing_twice_counterexample:
  "processing_file (add_to_processing unterminated_store ''bar'') = Some (''foobar'' @ [LF])
   \<and> processing_file (add_to_processing (add_to_processing unterminated_store ''bar'') ''bar'')
       = Some (''foobar'' @ [LF] @ ''bar'' @ [LF])
   \<and> processing_file (add_to_processing (add_to_processing unterminated_store ''bar'') ''bar'')
       \<noteq> processing_file (add_to_processing unterminated_store ''bar'')
   \<and> ''bar'' \<notin> set (store_lines (add_to_processing unterminated_store ''bar''))
   \<and> processing_file (add_to_processing (store_of []) (''a'' @ [LF] @ ''b''))
       = Some (''a'' @ [LF] @ ''b'' @ [LF])
   \<and> processing_file (add_to_processing (add_to_processing (store_of []) (''a'' @ [LF] @ ''b''))
                         (''a'' @ [LF] @ ''b''))
       = Some (''a'' @ [LF] @ ''b'' @ [LF] @ ''a'' @ [LF] @ ''b'' @ [LF])
   \<and> processing_file (add_to_processing sample_store ''a'') = processing_file sample_store
   \<and> count_list (store_lines (add_to_processing sample_store ''a'')) ''a'' = 2"
  by (simp add: add_to_processing_def unterminated_store_def sample_store_def store_of_def
        store_lines_def emit_def LF_def CR_def is_line_boundary_def)

section \<open>The dispatcher\<close>

subsection \<open>What each step leaves unchanged\<close>

lemma emit_simps [simp]:
  "processing_file (emit e w) = processing_file w"
  "output_dir (emit e w) = output_dir w"
  "events (emit e w) = events w @ [e]"
  by (simp_all add: emit_def)

lemma store_lines_emit [simp]: "store_lines (emit e w) = store_lines w"
  by (simp add: store_lines_def)

lemma contains_iff: "contains w n \<longleftrightarrow> n \<in> set (store_lines w)"
  by (simp add: contains_def is_in_processing_def store_lines_def split: option.splits)

lemma is_in_processing_False: "fst (is_in_processing w n) = False \<Longrightarrow> snd (is_in_processing w n) = w"
  by (simp add: is_in_processing_def split: option.splits if_splits)

lemma skip_check_False: "fst (skip_check w n) = False \<Longrightarrow> snd (skip_check w n) = w"
  by (simp add: skip_check_def is_in_processing_False split: if_splits)


lemma add_to_processing_simps [simp]:
  "output_dir (add_to_processing w n) = output_dir w"
  "events (add_to_processing w n) = events w @ [Print_processing n]"
  by (simp_all add: add_to_processing_def Let_def)

lemma remove_from_processing_simps [simp]:
  "output_dir (remove_from_processing w n) = output_dir w"
  "events (remove_from_processing w n) = events w"
  by (simp_all add: remove_from_processing_def Let_def split: option.splits)

lemma run_engine_simps [simp]:
  "processing_file (fst (run_engine eng p w)) = processing_file w"
  "events (fst (run_engine eng p w)) = events w @ [Run_engine p]"
  "output_dir (fst (run_engine eng p w)) = snd (eng p (output_dir w))"
  "snd (run_engine eng p w) = (if fst (eng p (output_dir w)) then Normal else Raised CalledProcessError)"
  by (simp_all add: run_engine_def Let_def)

lemma rmtree_processing_file [simp]: "processing_file (fst (rmtree w d)) = processing_file w"
  by (simp add: rmtree_def split: option.splits)

lemma rename_processing_file [simp]: "processing_file (fst (rename w a b)) = processing_file w"
  by (simp add: rename_def split: option.splits)

lemma rmtree_rename_processing_file:
  "processing_file
     (fst (case rmtree w a of (w3, Raised e) \<Rightarrow> (w3, Raised e)
           | (w3, Normal) \<Rightarrow> rename w3 b a)) = processing_file w"
proof (cases "rmtree w a")
  case (Pair w3 r)
  then have "processing_file w3 = processing_file w"
    using rmtree_processing_file [of w a] by simp
  with Pair show ?thesis by (cases r) simp_all
qed

lemma selector_try_processing_file [simp]:
  "processing_file (fst (selector_try w nm)) = processing_file w"
  by (simp add: selector_try_def Let_def rmtree_rename_processing_file split: sum.splits)

lemma result_selector_processing_file [simp]:
  "processing_file (fst (result_selector w nm)) = processing_file w"
proof (cases "selector_try w nm")
  case (Pair w1 r)
  then have "processing_file w1 = processing_file w"
    using selector_try_processing_file [of w nm] by simp
  with Pair show ?thesis
    by (cases r) (simp_all add: result_selector_def split: sum.splits)
qed

lemma executor_removes: "nm \<notin> set (store_lines (fst (executor eng ty w j nm cl)))"
proof (cases "executor_try eng ty w j nm cl")
  case (Pair w1 r)
  then show ?thesis
    by (simp add: executor_def store_lines_remove split: outcome.splits py_error.splits)
qed

lemma store_lines_cong: "processing_file w = processing_file w' \<Longrightarrow> store_lines w = store_lines w'"
  by (simp add: store_lines_def)

lemma registry_cleared_lemma:
  assumes "name_field job = Some nm" and "fst (skip_check w nm) = False"
  shows "\<not> contains (fst (process_job eng ty w job)) nm"
proof -
  let ?cl = "list_ex has_ligand (get_sequences job)"
  let ?x = "executor eng ty (emit (Print_contains_ligands ?cl) w) job nm ?cl"
  have s: "skip_check w nm = (False, w)"
    using assms(2) skip_check_False [OF assms(2)] by (simp add: prod_eq_iff)
  have "processing_file (fst (process_job eng ty w job)) = processing_file (fst ?x)"
  proof (cases ?x)
    case (Pair w2 r)
    then show ?thesis
      by (cases r) (simp_all add: process_job_def assms(1) s Let_def)
  qed
  then have "store_lines (fst (process_job eng ty w job)) = store_lines (fst ?x)"
    by (rule store_lines_cong)
  with executor_removes [of nm eng ty _ job ?cl] show ?thesis
    by (simp add: contains_iff)
qed


subsection \<open>The skip check and the runs of the engine\<close>

text \<open>
  The loop reaches a job in the state the jobs before it have left, if none of them
  has ended it. The statements about one job below are about that state.
\<close>

lemma dispatcher_append:
  "dispatcher eng ty w (before @ rest) =
     (case dispatcher eng ty w before of
        (w1, Raised e) \<Rightarrow> (w1, Raised e)
      | (w1, Normal) \<Rightarrow> dispatcher eng ty w1 rest)"
proof (induction before arbitrary: w)
  case Nil
  show ?case by simp
next
  case (Cons job before)
  show ?case
  proof (cases "process_job eng ty w job")
    case (Pair w1 r)
    with Cons.IH [of w1] show ?thesis by (cases r) simp_all
  qed
qed

lemma engine_runs_append: "engine_runs (xs @ ys) = engine_runs xs @ engine_runs ys"
  by (induction xs rule: engine_runs.induct) simp_all

lemma engine_runs_during_append:
  "events w' = events w @ es \<Longrightarrow> engine_runs_during w w' = engine_runs es"
  by (simp add: engine_runs_during_def)



lemma rmtree_events [simp]: "events (fst (rmtree w d)) = events w"
  by (simp add: rmtree_def split: option.splits)

lemma rename_events [simp]: "events (fst (rename w a b)) = events w"
  by (simp add: rename_def split: option.splits)

lemma rmtree_rename_events:
  "events (fst (case rmtree w a of (w3, Raised e) \<Rightarrow> (w3, Raised e)
           | (w3, Normal) \<Rightarrow> rename w3 b a)) = events w"
proof (cases "rmtree w a")
  case (Pair w3 r)
  then have "events w3 = events w"
    using rmtree_events [of w a] by simp
  with Pair show ?thesis by (cases r) simp_all
qed

lemma selector_try_events:
  "\<exists>es. events (fst (selector_try w nm)) = events w @ es \<and> engine_runs es = []"
  by (simp add: selector_try_def Let_def rmtree_rename_events split: sum.splits)

lemma result_selector_events:
  "\<exists>es. events (fst (result_selector w nm)) = events w @ es \<and> engine_runs es = []"
proof -
  obtain es where e: "events (fst (selector_try w nm)) = events w @ es" "engine_runs es = []"
    using selector_try_events by blast
  show ?thesis
  proof (cases "selector_try w nm")
    case (Pair w1 r)
    with e show ?thesis
      by (cases r) (simp_all add: result_selector_def engine_runs_append split: sum.splits)
  qed
qed

lemma process_job_skipped:
  assumes "name_field job = Some nm" and "fst (skip_check w nm)"
  shows "\<exists>es. events (fst (process_job eng ty w job)) = events w @ es \<and> engine_runs es = []"
    and "output_dir (fst (process_job eng ty w job)) = output_dir w"
    and "snd (process_job eng ty w job) = Normal"
  using assms
  by (auto simp: process_job_def skip_check_def is_in_processing_def Let_def
           split: if_splits option.splits)




subsection \<open>The registry after a pass\<close>

lemma terminated_written: "terminated (concat (map (\<lambda>obj. obj @ [LF]) ls))"
  by (induction ls rule: rev_induct) (simp_all add: terminated_def)

lemma terminated_remove:
  "terminated (store_content (remove_from_processing w n))"
  by (cases "processing_file w")
     (simp_all add: store_content_def remove_from_processing_def terminated_written,
      simp add: terminated_def)

lemma remove_cong:
  "processing_file w = processing_file w' \<Longrightarrow>
   processing_file (remove_from_processing w n) = processing_file (remove_from_processing w' n)"
  by (simp add: remove_from_processing_def split: option.splits)

lemma add_emit [simp]:
  "processing_file (add_to_processing (emit e w) n) = processing_file (add_to_processing w n)"
  by (simp add: add_to_processing_def emit_def Let_def)

lemma executor_try_processing_file:
  "processing_file (fst (executor_try eng ty w j n cl)) = processing_file (add_to_processing w n)"
  by (simp add: executor_try_def run_engine_def Let_def split: option.splits json_file.splits)

lemma executor_processing_file:
  "processing_file (fst (executor eng ty w j n cl))
     = processing_file (remove_from_processing (add_to_processing w n) n)"
proof (cases "executor_try eng ty w j n cl")
  case (Pair w1 r)
  with executor_try_processing_file [of eng ty w j n cl]
  have "processing_file w1 = processing_file (add_to_processing w n)" by simp
  then have "processing_file (remove_from_processing w1 n)
               = processing_file (remove_from_processing (add_to_processing w n) n)"
    and "processing_file (remove_from_processing (emit (Print_engine_error n) w1) n)
               = processing_file (remove_from_processing (add_to_processing w n) n)"
    by (auto intro: remove_cong)
  with Pair show ?thesis
    by (simp add: executor_def split: outcome.splits py_error.splits)
qed

lemma process_job_started_store:
  assumes "name_field job = Some nm" and "fst (skip_check w nm) = False"
  shows "processing_file (fst (process_job eng ty w job))
           = processing_file (remove_from_processing (add_to_processing w nm) nm)"
proof -
  let ?cl = "list_ex has_ligand (get_sequences job)"
  let ?x = "executor eng ty (emit (Print_contains_ligands ?cl) w) job nm ?cl"
  have s: "skip_check w nm = (False, w)"
    using assms(2) skip_check_False [OF assms(2)] by (simp add: prod_eq_iff)
  have "processing_file (fst (process_job eng ty w job)) = processing_file (fst ?x)"
  proof (cases ?x)
    case (Pair w2 r)
    then show ?thesis
      by (cases r) (simp_all add: process_job_def assms(1) s Let_def)
  qed
  also have "\<dots> = processing_file (remove_from_processing
                 (add_to_processing (emit (Print_contains_ligands ?cl) w) nm) nm)"
    by (rule executor_processing_file)
  also have "\<dots> = processing_file (remove_from_processing (add_to_processing w nm) nm)"
    by (rule remove_cong) simp
  finally show ?thesis .
qed

lemma process_job_idle_store:
  assumes "name_field job = None \<or> (\<exists>nm. name_field job = Some nm \<and> fst (skip_check w nm))"
  shows "processing_file (fst (process_job eng ty w job)) = processing_file w"
    and "\<exists>es. events (fst (process_job eng ty w job)) = events w @ es
            \<and> (\<forall>m. Print_processing m \<notin> set es)"
  using assms
  by (auto simp: process_job_def skip_check_def is_in_processing_def Let_def
           split: if_splits option.splits)

lemma store_content_cong:
  "processing_file w = processing_file w' \<Longrightarrow> store_content w = store_content w'"
  by (simp add: store_content_def)

lemma store_lines_remove_add:
  assumes "terminated (store_content w)" and "boundary_free n"
  shows "store_lines (remove_from_processing (add_to_processing w n) n)
           = filter (\<lambda>obj. obj \<noteq> n) (store_lines w)"
proof (cases "n \<in> set (store_lines w)")
  case True
  then show ?thesis by (simp add: store_lines_remove add_present_lines)
next
  case False
  then show ?thesis by (simp add: store_lines_remove add_absent_lines [OF assms])
qed

text \<open>A pass over one job, from a store whose last line is ended, adds no line.\<close>

lemma process_job_store_shrinks:
  assumes "terminated (store_content w)"
    and "\<forall>n. name_field job = Some n \<longrightarrow> boundary_free n"
  shows "set (store_lines (fst (process_job eng ty w job))) \<subseteq> set (store_lines w)
       \<and> terminated (store_content (fst (process_job eng ty w job)))"
proof (cases "name_field job = None \<or> (\<exists>nm. name_field job = Some nm \<and> fst (skip_check w nm))")
  case True
  from process_job_idle_store(1) [OF True, of eng ty] assms(1) show ?thesis
    by (simp add: store_lines_cong [of "fst (process_job eng ty w job)" w]
          store_content_cong [of "fst (process_job eng ty w job)" w])
next
  case False
  then obtain nm where nm: "name_field job = Some nm" and s: "fst (skip_check w nm) = False"
    by auto
  from assms(2) nm have b: "boundary_free nm" by simp
  note p = process_job_started_store [OF nm s, of eng ty]
  have "store_lines (fst (process_job eng ty w job)) = filter (\<lambda>obj. obj \<noteq> nm) (store_lines w)"
    using store_lines_cong [OF p] store_lines_remove_add [OF assms(1) b] by simp
  moreover have "terminated (store_content (fst (process_job eng ty w job)))"
    using store_content_cong [OF p] terminated_remove [of "add_to_processing w nm" nm] by simp
  ultimately show ?thesis by auto
qed

lemma dispatcher_store_shrinks:
  assumes "terminated (store_content w)"
    and "\<forall>j \<in> set jobs. \<forall>n. name_field j = Some n \<longrightarrow> boundary_free n"
  shows "set (store_lines (fst (dispatcher eng ty w jobs))) \<subseteq> set (store_lines w)"
  using assms
proof (induction jobs arbitrary: w)
  case Nil
  show ?case by simp
next
  case (Cons job jobs)
  obtain w1 r where p: "process_job eng ty w job = (w1, r)"
    by (cases "process_job eng ty w job")
  from Cons.prems have "\<forall>n. name_field job = Some n \<longrightarrow> boundary_free n" by simp
  from process_job_store_shrinks [OF Cons.prems(1) this, of eng ty] p
  have s: "set (store_lines w1) \<subseteq> set (store_lines w)" and t: "terminated (store_content w1)"
    by simp_all
  show ?case
  proof (cases r)
    case Normal
    from Cons.IH [OF t] Cons.prems(2)
    have "set (store_lines (fst (dispatcher eng ty w1 jobs))) \<subseteq> set (store_lines w1)" by simp
    with s p Normal show ?thesis by auto
  next
    case (Raised e)
    with s p show ?thesis by simp
  qed
qed

lemma executor_try_one_print:
  "\<exists>es. events (fst (executor_try eng ty w j nm cl)) = events w @ Print_processing nm # es
        \<and> (\<forall>m. Print_processing m \<notin> set es)"
  by (simp add: executor_try_def run_engine_def Let_def split: option.splits json_file.splits)

lemma executor_one_print:
  "\<exists>es. events (fst (executor eng ty w j nm cl)) = events w @ Print_processing nm # es
        \<and> (\<forall>m. Print_processing m \<notin> set es)"
proof -
  obtain es where e: "events (fst (executor_try eng ty w j nm cl))
                        = events w @ Print_processing nm # es"
    and n: "\<forall>m. Print_processing m \<notin> set es"
    using executor_try_one_print by blast
  show ?thesis
  proof (cases "executor_try eng ty w j nm cl")
    case (Pair w1 r)
    with e n show ?thesis
      by (simp add: executor_def split: outcome.splits py_error.splits)
  qed
qed

lemma selector_try_no_print:
  "\<exists>es. events (fst (selector_try w nm)) = events w @ es \<and> (\<forall>m. Print_processing m \<notin> set es)"
  by (simp add: selector_try_def Let_def rmtree_rename_events split: sum.splits)

lemma result_selector_no_print:
  "\<exists>es. events (fst (result_selector w nm)) = events w @ es
        \<and> (\<forall>m. Print_processing m \<notin> set es)"
proof -
  obtain es where e: "events (fst (selector_try w nm)) = events w @ es"
    and n: "\<forall>m. Print_processing m \<notin> set es"
    using selector_try_no_print by blast
  show ?thesis
  proof (cases "selector_try w nm")
    case (Pair w1 r)
    with e n show ?thesis
      by (cases r) (simp_all add: result_selector_def split: sum.splits)
  qed
qed

lemma process_job_started_print:
  assumes "name_field job = Some nm" and "fst (skip_check w nm) = False"
  shows "\<exists>es. events (fst (process_job eng ty w job)) = events w @ es
           \<and> (\<forall>m. Print_processing m \<in> set es \<longrightarrow> m = nm)"
proof -
  let ?cl = "list_ex has_ligand (get_sequences job)"
  let ?w1 = "emit (Print_contains_ligands ?cl) w"
  have s: "skip_check w nm = (False, w)"
    using assms(2) skip_check_False [OF assms(2)] by (simp add: prod_eq_iff)
  obtain es where e: "events (fst (executor eng ty ?w1 job nm ?cl))
      = events ?w1 @ Print_processing nm # es" and n: "\<forall>m. Print_processing m \<notin> set es"
    using executor_one_print by blast
  show ?thesis
  proof (cases "executor eng ty ?w1 job nm ?cl")
    case (Pair w2 r)
    obtain es' where "events (fst (result_selector w2 nm)) = events w2 @ es'"
      and "\<forall>m. Print_processing m \<notin> set es'"
      using result_selector_no_print by blast
    with Pair e n show ?thesis
      by (cases r) (simp_all add: process_job_def assms(1) s Let_def)
  qed
qed

lemma process_job_prints:
  "\<exists>es. events (fst (process_job eng ty w job)) = events w @ es
     \<and> (\<forall>m. Print_processing m \<in> set es \<longrightarrow>
           name_field job = Some m \<and> fst (skip_check w m) = False)"
proof (cases "name_field job = None \<or> (\<exists>nm. name_field job = Some nm \<and> fst (skip_check w nm))")
  case True
  from process_job_idle_store(2) [OF True, of eng ty] show ?thesis by blast
next
  case False
  then obtain nm where nm: "name_field job = Some nm" and s: "fst (skip_check w nm) = False"
    by auto
  from process_job_started_print [OF nm s, of eng ty] nm s show ?thesis by blast
qed

lemma dispatcher_registry_cleared:
  assumes "\<forall>j \<in> set jobs. \<forall>n. name_field j = Some n \<longrightarrow> boundary_free n"
  shows "\<exists>es. events (fst (dispatcher eng ty w jobs)) = events w @ es
           \<and> (\<forall>m. Print_processing m \<in> set es \<longrightarrow>
                 \<not> contains (fst (dispatcher eng ty w jobs)) m)"
  using assms
proof (induction jobs arbitrary: w)
  case Nil
  show ?case by simp
next
  case (Cons job jobs)
  obtain w1 r where p: "process_job eng ty w job = (w1, r)"
    by (cases "process_job eng ty w job")
  from process_job_prints [of eng ty w job] p
  obtain es where e: "events w1 = events w @ es"
    and n: "\<forall>m. Print_processing m \<in> set es \<longrightarrow>
               name_field job = Some m \<and> fst (skip_check w m) = False"
    by auto
  have c: "\<not> contains w1 m" and t: "terminated (store_content w1)"
    if "Print_processing m \<in> set es" for m
  proof -
    from n that have nm: "name_field job = Some m" and s: "fst (skip_check w m) = False"
      by auto
    from registry_cleared_lemma [OF nm s, of eng ty] p show "\<not> contains w1 m" by simp
    from process_job_started_store [OF nm s, of eng ty] p
    have "processing_file w1 = processing_file (remove_from_processing (add_to_processing w m) m)"
      by simp
    from store_content_cong [OF this] terminated_remove [of "add_to_processing w m" m]
    show "terminated (store_content w1)" by simp
  qed
  show ?case
  proof (cases r)
    case (Raised x)
    with p e c show ?thesis by auto
  next
    case Normal
    from Cons.prems have a: "\<forall>j \<in> set jobs. \<forall>n. name_field j = Some n \<longrightarrow> boundary_free n"
      by simp
    from Cons.IH [OF a, of w1] obtain es'
      where e': "events (fst (dispatcher eng ty w1 jobs)) = events w1 @ es'"
        and n': "\<forall>m. Print_processing m \<in> set es' \<longrightarrow>
                    \<not> contains (fst (dispatcher eng ty w1 jobs)) m"
      by blast
    have "\<not> contains (fst (dispatcher eng ty w1 jobs)) m" if "Print_processing m \<in> set es" for m
      using dispatcher_store_shrinks [OF t [OF that] a, of eng ty] c [OF that]
      by (auto simp: contains_iff)
    with p Normal e e' n' show ?thesis
      by auto
  qed
qed

text \<open>
  Claim C5, amended. For every job that passes the skip check, the name is not in the
  registry when the job's pass is over, whatever the engine did: after a success, after
  a failure of the engine, and after an exception that the \<open>try\<close> statement does
  not catch, for the \<open>finally\<close> block has run. When the dispatcher's pass over a
  backlog is over, no name that was added during the pass is in the registry, if no job
  name of the backlog has a line boundary.
\<close>

theorem registry_cleared_after_pass:
  "(name_field job = Some nm \<and> fst (skip_check w nm) = False
      \<longrightarrow> \<not> contains (fst (process_job eng ty w job)) nm)
   \<and> ((\<forall>j \<in> set jobs. \<forall>n. name_field j = Some n \<longrightarrow> boundary_free n)
      \<longrightarrow> (\<forall>m. Print_processing m
                   \<in> set (drop (length (events w)) (events (fst (dispatcher eng ty w jobs))))
                \<longrightarrow> \<not> contains (fst (dispatcher eng ty w jobs)) m))"
proof (intro conjI impI allI)
  assume "name_field job = Some nm \<and> fst (skip_check w nm) = False"
  then show "\<not> contains (fst (process_job eng ty w job)) nm"
    using registry_cleared_lemma by blast
next
  fix m
  assume a: "\<forall>j \<in> set jobs. \<forall>n. name_field j = Some n \<longrightarrow> boundary_free n"
    and m: "Print_processing m
              \<in> set (drop (length (events w)) (events (fst (dispatcher eng ty w jobs))))"
  from dispatcher_registry_cleared [OF a, of eng ty w] m
  show "\<not> contains (fst (dispatcher eng ty w jobs)) m" by auto
qed

subsection \<open>Evaluating the sample data\<close>

lemma lower_samples [simp]:
  "lower ''Job1'' = ''job1''" "lower ''Job2'' = ''job2''" "lower ''job1'' = ''job1''"
  "lower ''Job1_without_ligands'' = ''job1_without_ligands''"
  by code_simp+

section \<open>The result selector\<close>

lemma py_gt_irrefl [simp]: "\<not> py_gt p p"
  by (cases p) simp_all

lemma read_ranking_score_folder:
  "read_ranking_score fs folder file_name = Inr p \<Longrightarrow> \<exists>d. fs folder = Some d"
  by (simp add: read_ranking_score_def read_file_def split: option.splits)

lemma suffixed_neq [simp]: "s \<noteq> s @ ''_without_ligands''" "s @ ''_without_ligands'' \<noteq> s"
  by simp_all

lemma selector_try_readable:
  assumes "read_ranking_score (output_dir w) (lower nm)
             (lower nm @ ''_summary_confidences.json'') = Inr p"
    and "read_ranking_score (output_dir w) (lower nm @ ''_without_ligands'')
             (lower nm @ ''_without_ligands_summary_confidences.json'') = Inr q"
  shows "snd (selector_try w nm) = Normal"
    and "events (fst (selector_try w nm))
           = events w @ [Print_with_ligands_score p, Print_without_ligands_score q]"
    and "output_dir (fst (selector_try w nm))
           = (if py_gt p q then (output_dir w)(lower nm @ ''_without_ligands'' := None)
              else (output_dir w)(lower nm := output_dir w (lower nm @ ''_without_ligands''),
                                  lower nm @ ''_without_ligands'' := None))"
proof -
  from read_ranking_score_folder [OF assms(1)]
  obtain d1 where d1: "output_dir w (lower nm) = Some d1" by blast
  from read_ranking_score_folder [OF assms(2)]
  obtain d2 where d2: "output_dir w (lower nm @ ''_without_ligands'') = Some d2" by blast
  show "snd (selector_try w nm) = Normal"
    using assms d1 d2 by (simp add: selector_try_def Let_def rmtree_def rename_def)
  show "events (fst (selector_try w nm))
           = events w @ [Print_with_ligands_score p, Print_without_ligands_score q]"
    using assms d1 d2 by (simp add: selector_try_def Let_def rmtree_def rename_def)
  show "output_dir (fst (selector_try w nm))
           = (if py_gt p q then (output_dir w)(lower nm @ ''_without_ligands'' := None)
              else (output_dir w)(lower nm := output_dir w (lower nm @ ''_without_ligands''),
                                  lower nm @ ''_without_ligands'' := None))"
    using assms d1 d2
    by (auto simp: selector_try_def Let_def rmtree_def rename_def fun_eq_iff)
qed

lemma result_selector_Normal:
  "snd (selector_try w nm) = Normal \<Longrightarrow> result_selector w nm = selector_try w nm"
  by (cases "selector_try w nm") (simp add: result_selector_def)

lemma result_selector_Raised:
  "snd (selector_try w nm) = Raised e \<Longrightarrow>
   result_selector w nm = (fst (selector_try w nm), Raised AttributeError)"
  by (cases "selector_try w nm")
     (simp add: result_selector_def except_classes_def json_exception_class_def)

text \<open>
  Claim C1, amended. When both summary files are read, the selector removes the
  ligand-free directory and leaves the canonical one exactly when the primary score is
  strictly greater than the ligand-free score (Python's \<open>a > b\<close>); in every other
  case, a tie included, it removes the canonical directory and renames the ligand-free
  directory to the canonical name.
\<close>

theorem selector_keeps_primary_iff_strictly_greater:
  assumes "read_ranking_score (output_dir w) (lower nm)
             (lower nm @ ''_summary_confidences.json'') = Inr p"
    and "read_ranking_score (output_dir w) (lower nm @ ''_without_ligands'')
             (lower nm @ ''_without_ligands_summary_confidences.json'') = Inr q"
  shows "snd (result_selector w nm) = Normal
       \<and> (py_gt p q \<longrightarrow>
            output_dir (fst (result_selector w nm))
              = (output_dir w)(lower nm @ ''_without_ligands'' := None))
       \<and> (\<not> py_gt p q \<longrightarrow>
            output_dir (fst (result_selector w nm))
              = (output_dir w)(lower nm := output_dir w (lower nm @ ''_without_ligands''),
                               lower nm @ ''_without_ligands'' := None))
       \<and> (p = q \<longrightarrow>
            output_dir (fst (result_selector w nm))
              = (output_dir w)(lower nm := output_dir w (lower nm @ ''_without_ligands''),
                               lower nm @ ''_without_ligands'' := None))"
  using selector_try_readable [OF assms] result_selector_Normal [of w nm]
  by simp

lemma read_ranking_score_Object:
  "read_file fs folder file_name = Some (Object s) \<Longrightarrow>
   read_ranking_score fs folder file_name
     = Inr (case ranking_score_field s of None \<Rightarrow> Num (- 1) | Some v \<Rightarrow> v)"
  by (simp add: read_ranking_score_def)

text \<open>
  Claim C9. A summary without \<open>ranking_score\<close> counts as the score -1: that score
  is printed and compared. With no primary score and the ligand-free score 1/2, the
  ligand-free directory takes the canonical name.
\<close>

theorem missing_score_counts_as_minus_one:
  assumes "read_file (output_dir w) (lower nm)
             (lower nm @ ''_summary_confidences.json'') = Some (Object s1)"
    and "read_file (output_dir w) (lower nm @ ''_without_ligands'')
             (lower nm @ ''_without_ligands_summary_confidences.json'') = Some (Object s2)"
  shows "events (fst (result_selector w nm))
           = events w @
             [Print_with_ligands_score
                (case ranking_score_field s1 of None \<Rightarrow> Num (- 1) | Some v \<Rightarrow> v),
              Print_without_ligands_score
                (case ranking_score_field s2 of None \<Rightarrow> Num (- 1) | Some v \<Rightarrow> v)]
       \<and> output_dir (fst (result_selector w nm))
           = (if py_gt (case ranking_score_field s1 of None \<Rightarrow> Num (- 1) | Some v \<Rightarrow> v)
                       (case ranking_score_field s2 of None \<Rightarrow> Num (- 1) | Some v \<Rightarrow> v)
              then (output_dir w)(lower nm @ ''_without_ligands'' := None)
              else (output_dir w)(lower nm := output_dir w (lower nm @ ''_without_ligands''),
                                  lower nm @ ''_without_ligands'' := None))
       \<and> (ranking_score_field s1 = None \<and> ranking_score_field s2 = Some (Num (1 / 2)) \<longrightarrow>
            snd (result_selector w nm) = Normal
          \<and> output_dir (fst (result_selector w nm))
              = (output_dir w)(lower nm := output_dir w (lower nm @ ''_without_ligands''),
                               lower nm @ ''_without_ligands'' := None))"
  using selector_try_readable [OF read_ranking_score_Object [OF assms(1)]
          read_ranking_score_Object [OF assms(2)]]
        result_selector_Normal [of w nm]
  by simp

lemma selector_try_unreadable:
  assumes "\<not> candidates_readable w nm"
  shows "\<exists>e. snd (selector_try w nm) = Raised e"
    and "output_dir (fst (selector_try w nm)) = output_dir w"
    and "\<exists>es. events (fst (selector_try w nm)) = events w @ es
            \<and> (\<forall>e. Print_compare_error e \<notin> set es) \<and> engine_runs es = []"
  using assms
  by (auto simp: candidates_readable_def selector_try_def Let_def split: sum.splits)

lemma result_selector_unreadable:
  assumes "\<not> candidates_readable w nm"
  shows "snd (result_selector w nm) = Raised AttributeError"
    and "output_dir (fst (result_selector w nm)) = output_dir w"
    and "\<exists>es. events (fst (result_selector w nm)) = events w @ es
            \<and> (\<forall>e. Print_compare_error e \<notin> set es)"
proof -
  from selector_try_unreadable(1) [OF assms] obtain e
    where e: "snd (selector_try w nm) = Raised e" by blast
  from result_selector_Raised [OF e]
  have r: "result_selector w nm = (fst (selector_try w nm), Raised AttributeError)" .
  from r show "snd (result_selector w nm) = Raised AttributeError" by simp
  from r selector_try_unreadable(2) [OF assms]
  show "output_dir (fst (result_selector w nm)) = output_dir w" by simp
  from r selector_try_unreadable(3) [OF assms]
  show "\<exists>es. events (fst (result_selector w nm)) = events w @ es
            \<and> (\<forall>e. Print_compare_error e \<notin> set es)" by auto
qed

lemma candidates_readableE:
  assumes "candidates_readable w nm"
  obtains p q where "read_ranking_score (output_dir w) (lower nm)
             (lower nm @ ''_summary_confidences.json'') = Inr p"
    and "read_ranking_score (output_dir w) (lower nm @ ''_without_ligands'')
             (lower nm @ ''_without_ligands_summary_confidences.json'') = Inr q"
  using assms by (auto simp: candidates_readable_def split: sum.splits)

lemma result_selector_changes_iff:
  "output_dir (fst (result_selector w nm)) \<noteq> output_dir w \<longleftrightarrow> candidates_readable w nm"
proof (cases "candidates_readable w nm")
  case False
  with result_selector_unreadable(2) [OF False] show ?thesis by simp
next
  case True
  then obtain p q where p: "read_ranking_score (output_dir w) (lower nm)
             (lower nm @ ''_summary_confidences.json'') = Inr p"
    and q: "read_ranking_score (output_dir w) (lower nm @ ''_without_ligands'')
             (lower nm @ ''_without_ligands_summary_confidences.json'') = Inr q"
    by (rule candidates_readableE)
  from read_ranking_score_folder [OF q]
  obtain d where d: "output_dir w (lower nm @ ''_without_ligands'') = Some d" by blast
  from selector_try_readable [OF p q] result_selector_Normal [of w nm]
  have "output_dir (fst (result_selector w nm)) (lower nm @ ''_without_ligands'') = None"
    by simp
  with d True show ?thesis by auto
qed

lemma executor_never_CalledProcessError:
  "snd (executor eng ty w j nm cl) \<noteq> Raised CalledProcessError"
proof (cases "executor_try eng ty w j nm cl")
  case (Pair w1 r)
  have "snd (executor_try eng ty w j nm cl) \<in>
          {Normal, Raised CalledProcessError, Raised JSONDecodeError, Raised TypeError, Raised KeyError}"
    by (simp add: executor_try_def run_engine_def Let_def split: option.splits json_file.splits)
  with Pair show ?thesis
    by (auto simp: executor_def)
qed

lemma executor_plain_Normal:
  "snd (executor eng ty w j nm False) = Normal"
proof (cases "executor_try eng ty w j nm False")
  case (Pair w1 r)
  have "snd (executor_try eng ty w j nm False) \<in> {Normal, Raised CalledProcessError}"
    by (simp add: executor_try_def run_engine_def Let_def)
  with Pair show ?thesis
    by (auto simp: executor_def)
qed

lemma plain_job_continues:
  assumes "name_field job = Some nm" and "\<not> list_ex has_ligand (get_sequences job)"
  shows "snd (process_job eng ty w job) = Normal"
proof (cases "fst (skip_check w nm)")
  case True
  from process_job_skipped(3) [OF assms(1) True] show ?thesis .
next
  case False
  then have s: "skip_check w nm = (False, w)"
    using skip_check_False [of w nm] by (simp add: prod_eq_iff)
  let ?x = "executor eng ty (emit (Print_contains_ligands False) w) job nm False"
  from executor_plain_Normal [of eng ty _ job nm]
  have "snd ?x = Normal" .
  then show ?thesis
    using assms s by (cases ?x) (simp add: process_job_def Let_def)
qed

text \<open>
  Claim C4, amended. For a job that passes the skip check and whose executor step ends
  without an uncaught exception, the selector runs if and only if the job has a ligand
  component, whether the engine succeeded or not. The output directory changes after
  the executor step exactly when, moreover, both summary files are there and hold JSON
  objects.
\<close>

theorem selector_runs_for_every_ligand_job:
  assumes "name_field job = Some nm" and "fst (skip_check w nm) = False"
    and "contains_ligand = list_ex has_ligand (get_sequences job)"
    and "executor eng ty (emit (Print_contains_ligands contains_ligand) w) job nm contains_ligand
           = (w1, r1)"
  shows "(r1 = Normal \<and> contains_ligand \<longrightarrow> process_job eng ty w job = result_selector w1 nm)
       \<and> (\<not> contains_ligand \<longrightarrow> process_job eng ty w job = (w1, Normal))
       \<and> (output_dir (fst (process_job eng ty w job)) \<noteq> output_dir w1
            \<longleftrightarrow> r1 = Normal \<and> contains_ligand \<and> candidates_readable w1 nm)"
proof -
  have s: "skip_check w nm = (False, w)"
    using assms(2) skip_check_False [OF assms(2)] by (simp add: prod_eq_iff)
  have p: "process_job eng ty w job =
             (case r1 of Raised e \<Rightarrow> (w1, Raised e)
              | Normal \<Rightarrow> if contains_ligand then result_selector w1 nm else (w1, Normal))"
    using assms(1,3,4) s by (simp add: process_job_def Let_def)
  have n: "\<not> contains_ligand \<Longrightarrow> r1 = Normal"
    using executor_plain_Normal [of eng ty "emit (Print_contains_ligands contains_ligand) w" job nm]
      assms(4) by simp
  show ?thesis
  proof (cases r1)
    case Normal
    with p result_selector_changes_iff [of w1 nm] show ?thesis by simp
  next
    case (Raised e)
    with p n show ?thesis by auto
  qed
qed

section \<open>The secondary job definition\<close>

lemma executor_try_secondary:
  assumes "eng (dump_input ty job) (output_dir w) = (True, fs1)"
    and "read_file fs1 (lower nm) (lower nm @ ''_data.json'') = Some (Object d)"
    and "name_field d = Some n"
  shows "\<exists>es. events (fst (executor_try eng ty w job nm True))
           = events w @ [Print_processing nm, Run_engine (dump_input ty job), Print_first_model nm,
                         Print_generating_secondary nm,
                         Run_engine (dump_input ty (without_ligands d n))] @ es
           \<and> engine_runs es = []"
  using assms
  by (simp add: executor_try_def run_engine_def Let_def)

lemma executor_secondary:
  assumes "eng (dump_input ty job) (output_dir w) = (True, fs1)"
    and "read_file fs1 (lower nm) (lower nm @ ''_data.json'') = Some (Object d)"
    and "name_field d = Some n"
  shows "\<exists>es. events (fst (executor eng ty w job nm True))
           = events w @ [Print_processing nm, Run_engine (dump_input ty job), Print_first_model nm,
                         Print_generating_secondary nm,
                         Run_engine (dump_input ty (without_ligands d n))] @ es
           \<and> engine_runs es = []"
proof -
  from executor_try_secondary [where eng = eng and ty = ty and job = job and w = w, OF assms] obtain es
    where e: "events (fst (executor_try eng ty w job nm True))
           = events w @ [Print_processing nm, Run_engine (dump_input ty job), Print_first_model nm,
                         Print_generating_secondary nm,
                         Run_engine (dump_input ty (without_ligands d n))] @ es"
      and r: "engine_runs es = []" by blast
  show ?thesis
  proof (cases "executor_try eng ty w job nm True")
    case (Pair w1 r1)
    with e r show ?thesis
      by (auto simp: executor_def engine_runs_append split: outcome.splits py_error.splits)
  qed
qed

text \<open>
  Claim C8. For a job with a ligand component whose primary run succeeded and left a
  data file holding an object with a name, the engine's second input is that object
  with two changes: the name has the suffix \<open>_without_ligands\<close>, and the
  sequences are those without the key \<open>ligand\<close>, in their order. The other fields
  are the same.
\<close>

theorem secondary_job_definition:
  assumes "name_field job = Some nm" and "fst (skip_check w nm) = False"
    and "list_ex has_ligand (get_sequences job)"
    and "eng (dump_input ty job) (output_dir w) = (True, fs1)"
    and "read_file fs1 (lower nm) (lower nm @ ''_data.json'') = Some (Object d)"
    and "name_field d = Some n"
  shows "\<exists>d'. engine_runs_during w (fst (process_job eng ty w job))
                 = [dump_input ty job, dump_input ty d']
            \<and> name_field d' = Some (n @ ''_without_ligands'')
            \<and> sequences_field d' = Some (filter (\<lambda>seq. \<not> has_ligand seq) (get_sequences d))
            \<and> ranking_score_field d' = ranking_score_field d
            \<and> other_fields d' = other_fields d"
proof -
  let ?w0 = "emit (Print_contains_ligands True) w"
  have s: "skip_check w nm = (False, w)"
    using assms(2) skip_check_False [OF assms(2)] by (simp add: prod_eq_iff)
  have "eng (dump_input ty job) (output_dir ?w0) = (True, fs1)"
    using assms(4) by simp
  from executor_secondary [where eng = eng and ty = ty and job = job and w = ?w0, OF this assms(5,6)] obtain es
    where e: "events (fst (executor eng ty ?w0 job nm True))
           = events ?w0 @ [Print_processing nm, Run_engine (dump_input ty job), Print_first_model nm,
                         Print_generating_secondary nm,
                         Run_engine (dump_input ty (without_ligands d n))] @ es"
      and r: "engine_runs es = []" by blast
  have "\<exists>es'. events (fst (process_job eng ty w job))
           = events (fst (executor eng ty ?w0 job nm True)) @ es' \<and> engine_runs es' = []"
  proof (cases "executor eng ty ?w0 job nm True")
    case (Pair w2 r2)
    with result_selector_events [of w2 nm] show ?thesis
      using assms(1,3) s by (cases r2) (auto simp: process_job_def Let_def)
  qed
  then obtain es' where "events (fst (process_job eng ty w job))
           = events (fst (executor eng ty ?w0 job nm True)) @ es'" and "engine_runs es' = []"
    by blast
  with e r have "events (fst (process_job eng ty w job))
      = events w @ ([Print_contains_ligands True, Print_processing nm,
                     Run_engine (dump_input ty job), Print_first_model nm,
                     Print_generating_secondary nm,
                     Run_engine (dump_input ty (without_ligands d n))] @ es @ es')"
    and "engine_runs (es @ es') = []"
    by (simp_all add: engine_runs_append)
  then have "engine_runs_during w (fst (process_job eng ty w job))
               = [dump_input ty job, dump_input ty (without_ligands d n)]"
    using engine_runs_during_append
      [of "fst (process_job eng ty w job)" w] by (simp add: engine_runs_append)
  then show ?thesis
    by (intro exI [of _ "without_ligands d n"]) (simp add: without_ligands_def)
qed

section \<open>Sample runs\<close>

lemmas step_defs =
  process_job_def skip_check_def is_in_processing_def executor_def executor_try_def
  run_engine_def add_to_processing_def remove_from_processing_def result_selector_def
  selector_try_def read_ranking_score_def read_file_def rmtree_def rename_def except_classes_def
  json_exception_class_def dump_input_def emit_def Let_def

lemmas text_defs = LF_def CR_def is_line_boundary_def contains_def

lemma named_job_simps [simp]:
  "name_field (named_job n) = Some n"
  "\<not> list_ex has_ligand (get_sequences (named_job n))"
  by (simp_all add: named_job_def get_sequences_def has_ligand_def protein_component_def)


lemma sample_jobs [simp]:
  "name_field ligand_job = Some ''Job1''"
  "name_field plain_job = Some ''Job2''"
  "list_ex has_ligand (get_sequences ligand_job)"
  "\<not> list_ex has_ligand (get_sequences plain_job)"
  by (simp_all add: ligand_job_def plain_job_def get_sequences_def has_ligand_def
        protein_component_def ligand_component_def)

lemmas sample_engine_defs =
  sample_engine_def payload_job_def has_ligands_def result_directory_def summary_def

lemma without_ligands_simps [simp]:
  "name_field (without_ligands d n) = Some (n @ ''_without_ligands'')"
  "\<not> list_ex has_ligand (get_sequences (without_ligands d n))"
  by (simp_all add: without_ligands_def get_sequences_def list_ex_iff)

theorem registry_cleared_after_pass_witness:
  "name_field ligand_job = Some ''Job1'' \<and> fst (skip_check busy_world ''Job1'') = False
   \<and> snd (process_job (scored_engine (Some (Num (4/5))) (Some (Num (3/5)))) Af3 busy_world ligand_job)
       = Normal
   \<and> \<not> contains (fst (process_job (scored_engine (Some (Num (4/5))) (Some (Num (3/5)))) Af3
                          busy_world ligand_job)) ''Job1''
   \<and> snd (process_job corrupt_engine Af3 busy_world ligand_job) = Raised JSONDecodeError
   \<and> \<not> contains (fst (process_job corrupt_engine Af3 busy_world ligand_job)) ''Job1''
   \<and> boundary_free ''Job3'' \<and> boundary_free ''Job2''
   \<and> events (fst (dispatcher failing_engine Af3 busy_world [named_job ''Job3'', plain_job]))
       = [Print_contains_ligands False, Print_processing ''Job3'',
          Run_engine (Plain (named_job ''Job3'')), Print_engine_error ''Job3'',
          Print_contains_ligands False, Print_processing ''Job2'',
          Run_engine (Plain plain_job), Print_engine_error ''Job2'']
   \<and> \<not> contains (fst (dispatcher failing_engine Af3 busy_world [named_job ''Job3'', plain_job]))
          ''Job3''
   \<and> \<not> contains (fst (dispatcher failing_engine Af3 busy_world [named_job ''Job3'', plain_job]))
          ''Job2''"
proof -
  let ?eng = "scored_engine (Some (Num (4/5))) (Some (Num (3/5)))"
  let ?jobs = "[named_job ''Job3'', plain_job]"
  have s1: "fst (skip_check busy_world ''Job1'') = False"
    by (simp add: skip_check_def is_in_processing_def busy_world_def text_defs)
  have r1: "snd (process_job ?eng Af3 busy_world ligand_job) = Normal"
    by (simp add: step_defs sample_engine_defs scored_engine_def busy_world_def text_defs)
  have r3: "snd (process_job corrupt_engine Af3 busy_world ligand_job) = Raised JSONDecodeError"
    by (simp add: step_defs sample_engine_defs corrupt_engine_def busy_world_def text_defs)
  have b: "boundary_free ''Job3''" "boundary_free ''Job2''"
    by (simp_all add: boundary_free_def is_line_boundary_def)
  then have a: "\<forall>j \<in> set ?jobs. \<forall>n. name_field j = Some n \<longrightarrow> boundary_free n"
    by simp
  have e: "events (fst (dispatcher failing_engine Af3 busy_world ?jobs))
       = [Print_contains_ligands False, Print_processing ''Job3'',
          Run_engine (Plain (named_job ''Job3'')), Print_engine_error ''Job3'',
          Print_contains_ligands False, Print_processing ''Job2'',
          Run_engine (Plain plain_job), Print_engine_error ''Job2'']"
    by (simp add: step_defs failing_engine_def busy_world_def text_defs)
  have l: "length (events busy_world) = 0"
    by (simp add: busy_world_def)
  note job1 = registry_cleared_after_pass [of ligand_job "''Job1''" busy_world ?eng Af3 "[]"]
  note job1' = registry_cleared_after_pass
                 [of ligand_job "''Job1''" busy_world corrupt_engine Af3 "[]"]
  note pass = registry_cleared_after_pass
                [of ligand_job "''Job1''" busy_world failing_engine Af3 ?jobs]
  have c1: "\<not> contains (fst (process_job ?eng Af3 busy_world ligand_job)) ''Job1''"
    using job1 sample_jobs(1) s1 by blast
  have c2: "\<not> contains (fst (process_job corrupt_engine Af3 busy_world ligand_job)) ''Job1''"
    using job1' sample_jobs(1) s1 by blast
  have p: "\<forall>m. Print_processing m
                   \<in> set (drop (length (events busy_world))
                            (events (fst (dispatcher failing_engine Af3 busy_world ?jobs))))
                \<longrightarrow> \<not> contains (fst (dispatcher failing_engine Af3 busy_world ?jobs)) m"
    using pass a by blast
  have c3: "\<not> contains (fst (dispatcher failing_engine Af3 busy_world ?jobs)) ''Job3''"
    and c4: "\<not> contains (fst (dispatcher failing_engine Af3 busy_world ?jobs)) ''Job2''"
    using p [rule_format, of "''Job3''"] p [rule_format, of "''Job2''"] e l by simp_all
  show ?thesis
    by (intro conjI) (fact sample_jobs s1 r1 c1 r3 c2 b e c3 c4)+
qed

text \<open>
  The claim as it stands fails when a job name has a line feed. The job \<open>Job3\<close> is
  started and removed; the next job's name is written on two lines, \<open>Job3\<close> and
  \<open>x\<close>, and \<open>remove_from_processing\<close> finds no line equal to the whole name. When
  the pass is over the registry holds \<open>Job3\<close>.
\<close>

theorem multiline_name_counterexample:
  "events (fst (dispatcher failing_engine Af3 empty_world
                  [named_job ''Job3'', named_job (''Job3'' @ [LF] @ ''x'')]))
     = [Print_contains_ligands False, Print_processing ''Job3'',
        Run_engine (Plain (named_job ''Job3'')), Print_engine_error ''Job3'',
        Print_contains_ligands False, Print_processing (''Job3'' @ [LF] @ ''x''),
        Run_engine (Plain (named_job (''Job3'' @ [LF] @ ''x''))),
        Print_engine_error (''Job3'' @ [LF] @ ''x'')]
   \<and> snd (dispatcher failing_engine Af3 empty_world
                  [named_job ''Job3'', named_job (''Job3'' @ [LF] @ ''x'')]) = Normal
   \<and> processing_file (fst (dispatcher failing_engine Af3 empty_world
                      [named_job ''Job3'', named_job (''Job3'' @ [LF] @ ''x'')]))
     = Some (''Job3'' @ [LF] @ ''x'' @ [LF])
   \<and> contains (fst (dispatcher failing_engine Af3 empty_world
                      [named_job ''Job3'', named_job (''Job3'' @ [LF] @ ''x'')])) ''Job3''"
proof -
  have p: "processing_file (fst (dispatcher failing_engine Af3 empty_world
                      [named_job ''Job3'', named_job (''Job3'' @ [LF] @ ''x'')]))
     = Some (''Job3'' @ [LF] @ ''x'' @ [LF])
   \<and> snd (dispatcher failing_engine Af3 empty_world
                  [named_job ''Job3'', named_job (''Job3'' @ [LF] @ ''x'')]) = Normal
   \<and> events (fst (dispatcher failing_engine Af3 empty_world
                      [named_job ''Job3'', named_job (''Job3'' @ [LF] @ ''x'')]))
     = [Print_contains_ligands False, Print_processing ''Job3'',
        Run_engine (Plain (named_job ''Job3'')), Print_engine_error ''Job3'',
        Print_contains_ligands False, Print_processing (''Job3'' @ [LF] @ ''x''),
        Run_engine (Plain (named_job (''Job3'' @ [LF] @ ''x''))),
        Print_engine_error (''Job3'' @ [LF] @ ''x'')]"
    by (simp add: step_defs failing_engine_def empty_world_def text_defs)
  then have "store_lines (fst (dispatcher failing_engine Af3 empty_world
                      [named_job ''Job3'', named_job (''Job3'' @ [LF] @ ''x'')]))
               = [''Job3'', ''x'']"
    by (simp add: store_lines_def text_defs)
  then have "contains (fst (dispatcher failing_engine Af3 empty_world
                      [named_job ''Job3'', named_job (''Job3'' @ [LF] @ ''x'')])) ''Job3''"
    by (simp add: contains_iff)
  with p show ?thesis by blast
qed


lemmas selector_defs =
  result_selector_def selector_try_def read_ranking_score_def read_file_def rmtree_def
  rename_def except_classes_def json_exception_class_def emit_def Let_def

lemma candidates_scores:
  "read_ranking_score (output_dir (candidates p q)) (lower ''Job1'')
     (lower ''Job1'' @ ''_summary_confidences.json'')
     = Inr (case p of None \<Rightarrow> Num (- 1) | Some v \<Rightarrow> v)"
  "read_ranking_score (output_dir (candidates p q)) (lower ''Job1'' @ ''_without_ligands'')
     (lower ''Job1'' @ ''_without_ligands_summary_confidences.json'')
     = Inr (case q of None \<Rightarrow> Num (- 1) | Some v \<Rightarrow> v)"
  by (simp_all add: read_ranking_score_def read_file_def candidates_def candidates_with_def
        result_directory_def summary_def)

theorem selector_keeps_primary_iff_strictly_greater_witness:
  "read_ranking_score (output_dir (candidates (Some (Num (4/5))) (Some (Num (3/5))))) (lower ''Job1'')
     (lower ''Job1'' @ ''_summary_confidences.json'') = Inr (Num (4/5))
   \<and> read_ranking_score (output_dir (candidates (Some (Num (4/5))) (Some (Num (3/5)))))
       (lower ''Job1'' @ ''_without_ligands'')
       (lower ''Job1'' @ ''_without_ligands_summary_confidences.json'') = Inr (Num (3/5))
   \<and> py_gt (Num (4/5)) (Num (3/5))
   \<and> snd (result_selector (candidates (Some (Num (4/5))) (Some (Num (3/5)))) ''Job1'') = Normal
   \<and> output_dir (fst (result_selector (candidates (Some (Num (4/5))) (Some (Num (3/5)))) ''Job1''))
       = (output_dir (candidates (Some (Num (4/5))) (Some (Num (3/5)))))
           (''job1_without_ligands'' := None)
   \<and> \<not> py_gt (Num (3/10)) (Num (9/10))
   \<and> output_dir (fst (result_selector (candidates (Some (Num (3/10))) (Some (Num (9/10)))) ''Job1''))
       = (output_dir (candidates (Some (Num (3/10))) (Some (Num (9/10)))))
           (''job1'' := output_dir (candidates (Some (Num (3/10))) (Some (Num (9/10))))
                          ''job1_without_ligands'',
            ''job1_without_ligands'' := None)"
proof -
  have a: "read_ranking_score (output_dir (candidates (Some (Num (4/5))) (Some (Num (3/5)))))
     (lower ''Job1'') (lower ''Job1'' @ ''_summary_confidences.json'') = Inr (Num (4/5))"
    and b: "read_ranking_score (output_dir (candidates (Some (Num (4/5))) (Some (Num (3/5)))))
       (lower ''Job1'' @ ''_without_ligands'')
       (lower ''Job1'' @ ''_without_ligands_summary_confidences.json'') = Inr (Num (3/5))"
    and c: "read_ranking_score (output_dir (candidates (Some (Num (3/10))) (Some (Num (9/10)))))
     (lower ''Job1'') (lower ''Job1'' @ ''_summary_confidences.json'') = Inr (Num (3/10))"
    and d: "read_ranking_score (output_dir (candidates (Some (Num (3/10))) (Some (Num (9/10)))))
       (lower ''Job1'' @ ''_without_ligands'')
       (lower ''Job1'' @ ''_without_ligands_summary_confidences.json'') = Inr (Num (9/10))"
    by (simp_all only: candidates_scores option.case)
  from selector_keeps_primary_iff_strictly_greater [OF a b]
       selector_keeps_primary_iff_strictly_greater [OF c d] a b
  show ?thesis by simp
qed

text \<open>
  The claim as it stands fails on a tie: with the score 1/2 on both sides the selector
  removes the canonical directory, and the directory of the canonical name is then the
  ligand-free one, with the ligand-free files.
\<close>

theorem selector_tie_counterexample:
  "snd (result_selector (candidates (Some (Num (1/2))) (Some (Num (1/2)))) ''Job1'') = Normal
   \<and> output_dir (fst (result_selector (candidates (Some (Num (1/2))) (Some (Num (1/2)))) ''Job1''))
        ''job1''
       = output_dir (candidates (Some (Num (1/2))) (Some (Num (1/2)))) ''job1_without_ligands''
   \<and> output_dir (fst (result_selector (candidates (Some (Num (1/2))) (Some (Num (1/2)))) ''Job1''))
        ''job1_without_ligands'' = None
   \<and> read_file (output_dir (fst (result_selector (candidates (Some (Num (1/2))) (Some (Num (1/2))))
                                   ''Job1'')))
        ''job1'' ''job1_data.json'' = None
   \<and> read_file (output_dir (candidates (Some (Num (1/2))) (Some (Num (1/2)))))
        ''job1'' ''job1_data.json'' = Some (Object ligand_job)"
  by (simp add: selector_defs candidates_def candidates_with_def result_directory_def summary_def)

theorem missing_score_counts_as_minus_one_witness:
  "read_file (output_dir (candidates None (Some (Num (1/2))))) (lower ''Job1'')
     (lower ''Job1'' @ ''_summary_confidences.json'')
     = Some (summary None)
   \<and> read_file (output_dir (candidates None (Some (Num (1/2)))))
       (lower ''Job1'' @ ''_without_ligands'')
       (lower ''Job1'' @ ''_without_ligands_summary_confidences.json'')
     = Some (summary (Some (Num (1/2))))
   \<and> events (fst (result_selector (candidates None (Some (Num (1/2)))) ''Job1''))
       = [Print_with_ligands_score (Num (- 1)), Print_without_ligands_score (Num (1/2))]
   \<and> snd (result_selector (candidates None (Some (Num (1/2)))) ''Job1'') = Normal
   \<and> output_dir (fst (result_selector (candidates None (Some (Num (1/2)))) ''Job1''))
       = (output_dir (candidates None (Some (Num (1/2)))))
           (''job1'' := output_dir (candidates None (Some (Num (1/2)))) ''job1_without_ligands'',
            ''job1_without_ligands'' := None)
   \<and> events (fst (result_selector (candidates (Some (Num 0)) None) ''Job1''))
       = [Print_with_ligands_score (Num 0), Print_without_ligands_score (Num (- 1))]
   \<and> output_dir (fst (result_selector (candidates (Some (Num 0)) None) ''Job1''))
       = (output_dir (candidates (Some (Num 0)) None))(''job1_without_ligands'' := None)"
proof -
  have a: "read_file (output_dir (candidates None (Some (Num (1/2))))) (lower ''Job1'')
     (lower ''Job1'' @ ''_summary_confidences.json'')
     = Some (Object \<lparr>name_field = None, sequences_field = None, ranking_score_field = None,
                      other_fields = []\<rparr>)"
    and b: "read_file (output_dir (candidates None (Some (Num (1/2)))))
       (lower ''Job1'' @ ''_without_ligands'')
       (lower ''Job1'' @ ''_without_ligands_summary_confidences.json'')
     = Some (Object \<lparr>name_field = None, sequences_field = None,
                      ranking_score_field = Some (Num (1/2)), other_fields = []\<rparr>)"
    and c: "read_file (output_dir (candidates (Some (Num 0)) None)) (lower ''Job1'')
     (lower ''Job1'' @ ''_summary_confidences.json'')
     = Some (Object \<lparr>name_field = None, sequences_field = None,
                      ranking_score_field = Some (Num 0), other_fields = []\<rparr>)"
    and d: "read_file (output_dir (candidates (Some (Num 0)) None))
       (lower ''Job1'' @ ''_without_ligands'')
       (lower ''Job1'' @ ''_without_ligands_summary_confidences.json'')
     = Some (Object \<lparr>name_field = None, sequences_field = None, ranking_score_field = None,
                      other_fields = []\<rparr>)"
    by (simp_all add: read_file_def candidates_def candidates_with_def result_directory_def
          summary_def)
  have e: "events (candidates None (Some (Num (1/2)))) = []"
    "events (candidates (Some (Num 0)) None) = []"
    by (simp_all add: candidates_def candidates_with_def)
  from missing_score_counts_as_minus_one [OF a b]
       missing_score_counts_as_minus_one [OF c d] a b e
  show ?thesis by (simp add: summary_def)
qed

text \<open>
  Claim C2 fails on the code. With the ligand-free summary missing, not JSON, or not an
  object, the exception reaches line 187, whose tuple cannot be evaluated: an
  AttributeError leaves the selector, and nothing is printed about the comparison. The
  directories are as they were.
\<close>

theorem selector_error_is_not_caught:
  "snd (result_selector primary_only ''Job1'') = Raised AttributeError
   \<and> events (fst (result_selector primary_only ''Job1'')) = [Print_with_ligands_score (Num (4/5))]
   \<and> output_dir (fst (result_selector primary_only ''Job1'')) = output_dir primary_only
   \<and> snd (result_selector (candidates_with (summary (Some (Num (4/5)))) Malformed) ''Job1'')
       = Raised AttributeError
   \<and> events (fst (result_selector (candidates_with (summary (Some (Num (4/5)))) Malformed) ''Job1''))
       = [Print_with_ligands_score (Num (4/5))]
   \<and> snd (result_selector (candidates_with NotObject (summary (Some (Num (4/5))))) ''Job1'')
       = Raised AttributeError
   \<and> events (fst (result_selector (candidates_with NotObject (summary (Some (Num (4/5))))) ''Job1''))
       = []"
  by (simp add: selector_defs primary_only_def candidates_with_def result_directory_def summary_def)

lemma dispatcher_Raised:
  "snd (process_job eng ty w j) = Raised e \<Longrightarrow>
   dispatcher eng ty w (j # js) = process_job eng ty w j"
  by (cases "process_job eng ty w j") simp

text \<open>
  Claim C3 fails on the code for a job with a ligand component. The engine fails on
  \<open>Job1\<close> and writes nothing; the failure is caught and printed, the selector then
  finds no summary file, and the AttributeError of line 187 ends the loop: \<open>Job2\<close> is
  never looked at.
\<close>

theorem failure_of_ligand_job_aborts_loop:
  "snd (dispatcher failing_engine Af3 empty_world [ligand_job, plain_job]) = Raised AttributeError
   \<and> events (fst (dispatcher failing_engine Af3 empty_world [ligand_job, plain_job]))
       = [Print_contains_ligands True, Print_processing ''Job1'', Run_engine (Plain ligand_job),
          Print_engine_error ''Job1'']
   \<and> main failing_engine Af3 empty_world (Several [ligand_job, plain_job])
       = dispatcher failing_engine Af3 empty_world [ligand_job, plain_job]"
proof -
  have r: "snd (process_job failing_engine Af3 empty_world ligand_job) = Raised AttributeError
     \<and> events (fst (process_job failing_engine Af3 empty_world ligand_job))
       = [Print_contains_ligands True, Print_processing ''Job1'', Run_engine (Plain ligand_job),
          Print_engine_error ''Job1'']"
    by (simp add: step_defs failing_engine_def empty_world_def)
  then have "dispatcher failing_engine Af3 empty_world [ligand_job, plain_job]
               = process_job failing_engine Af3 empty_world ligand_job"
    by (intro dispatcher_Raised) simp
  with r show ?thesis
    by (simp add: main_def)
qed

text \<open>
  The claim as it stands fails. The engine succeeds on \<open>Job1\<close> and fails on the
  ligand-free job, so that there is no second candidate: the selector still runs, reads
  and prints the primary score, and ends on the missing ligand-free summary. The engine
  writes the result of \<open>Job1\<close> and exits with a non-zero status, and a ligand-free
  directory is left from an earlier pass: the selector compares the two and renames the
  old directory to the canonical name, though the primary run failed.
\<close>

theorem selector_runs_after_failure_counterexample:
  "events (fst (process_job secondary_failing_engine Af3 empty_world ligand_job))
     = [Print_contains_ligands True, Print_processing ''Job1'', Run_engine (Plain ligand_job),
        Print_first_model ''Job1'', Print_generating_secondary ''Job1'',
        Run_engine (Plain (without_ligands ligand_job ''Job1'')), Print_engine_error ''Job1'',
        Print_with_ligands_score (Num (4/5))]
   \<and> output_dir (fst (process_job secondary_failing_engine Af3 empty_world ligand_job))
        ''job1_without_ligands'' = None
   \<and> events (fst (process_job partial_engine Af3 stale_world ligand_job))
     = [Print_contains_ligands True, Print_processing ''Job1'', Run_engine (Plain ligand_job),
        Print_engine_error ''Job1'', Print_with_ligands_score (Num (4/5)),
        Print_without_ligands_score (Num (9/10))]
   \<and> snd (process_job partial_engine Af3 stale_world ligand_job) = Normal
   \<and> output_dir (fst (process_job partial_engine Af3 stale_world ligand_job)) ''job1''
       = output_dir stale_world ''job1_without_ligands''
   \<and> output_dir (fst (process_job partial_engine Af3 stale_world ligand_job))
        ''job1_without_ligands'' = None"
proof -
  have a: "events (fst (process_job secondary_failing_engine Af3 empty_world ligand_job))
     = [Print_contains_ligands True, Print_processing ''Job1'', Run_engine (Plain ligand_job),
        Print_first_model ''Job1'', Print_generating_secondary ''Job1'',
        Run_engine (Plain (without_ligands ligand_job ''Job1'')), Print_engine_error ''Job1'',
        Print_with_ligands_score (Num (4/5))]
   \<and> output_dir (fst (process_job secondary_failing_engine Af3 empty_world ligand_job))
        ''job1_without_ligands'' = None"
    by (simp add: step_defs sample_engine_defs secondary_failing_engine_def empty_world_def
          text_defs)
  have b: "events (fst (process_job partial_engine Af3 stale_world ligand_job))
     = [Print_contains_ligands True, Print_processing ''Job1'', Run_engine (Plain ligand_job),
        Print_engine_error ''Job1'', Print_with_ligands_score (Num (4/5)),
        Print_without_ligands_score (Num (9/10))]
   \<and> snd (process_job partial_engine Af3 stale_world ligand_job) = Normal
   \<and> output_dir (fst (process_job partial_engine Af3 stale_world ligand_job)) ''job1''
       = output_dir stale_world ''job1_without_ligands''
   \<and> output_dir (fst (process_job partial_engine Af3 stale_world ligand_job))
        ''job1_without_ligands'' = None"
    by (simp add: step_defs sample_engine_defs partial_engine_def scored_engine_def
          stale_world_def text_defs)
  from a b show ?thesis by simp
qed

theorem selector_runs_for_every_ligand_job_witness:
  "name_field ligand_job = Some ''Job1'' \<and> fst (skip_check stale_world ''Job1'') = False
   \<and> list_ex has_ligand (get_sequences ligand_job)
   \<and> snd (executor partial_engine Af3 (emit (Print_contains_ligands True) stale_world)
            ligand_job ''Job1'' True) = Normal
   \<and> candidates_readable
        (fst (executor partial_engine Af3 (emit (Print_contains_ligands True) stale_world)
               ligand_job ''Job1'' True)) ''Job1''
   \<and> process_job partial_engine Af3 stale_world ligand_job
       = result_selector
           (fst (executor partial_engine Af3 (emit (Print_contains_ligands True) stale_world)
                  ligand_job ''Job1'' True)) ''Job1''
   \<and> output_dir (fst (process_job partial_engine Af3 stale_world ligand_job))
       \<noteq> output_dir (fst (executor partial_engine Af3 (emit (Print_contains_ligands True) stale_world)
                              ligand_job ''Job1'' True))
   \<and> name_field plain_job = Some ''Job2'' \<and> fst (skip_check empty_world ''Job2'') = False
   \<and> \<not> list_ex has_ligand (get_sequences plain_job)
   \<and> process_job failing_engine Af3 empty_world plain_job
       = (fst (executor failing_engine Af3 (emit (Print_contains_ligands False) empty_world)
                 plain_job ''Job2'' False), Normal)"
proof -
  let ?x = "executor partial_engine Af3 (emit (Print_contains_ligands True) stale_world)
              ligand_job ''Job1'' True"
  let ?y = "executor failing_engine Af3 (emit (Print_contains_ligands False) empty_world)
              plain_job ''Job2'' False"
  have s1: "fst (skip_check stale_world ''Job1'') = False"
    by (simp add: skip_check_def is_in_processing_def stale_world_def)
  have s2: "fst (skip_check empty_world ''Job2'') = False"
    by (simp add: skip_check_def is_in_processing_def empty_world_def)
  have c1: "True = list_ex has_ligand (get_sequences ligand_job)"
    and c2: "False = list_ex has_ligand (get_sequences plain_job)"
    by simp_all
  have x: "?x = (fst ?x, snd ?x)" and y: "?y = (fst ?y, snd ?y)"
    by simp_all
  have r: "snd ?x = Normal"
    by (simp add: executor_def executor_try_def run_engine_def partial_engine_def Let_def)
  have k: "candidates_readable (fst ?x) ''Job1''"
    by (simp add: candidates_readable_def step_defs sample_engine_defs partial_engine_def
          scored_engine_def stale_world_def)
  note ligand = selector_runs_for_every_ligand_job [OF sample_jobs(1) s1 c1 x]
  note plain = selector_runs_for_every_ligand_job [OF sample_jobs(2) s2 c2 y]
  have p1: "process_job partial_engine Af3 stale_world ligand_job = result_selector (fst ?x) ''Job1''"
    using ligand r by blast
  have p2: "output_dir (fst (process_job partial_engine Af3 stale_world ligand_job))
              \<noteq> output_dir (fst ?x)"
    using ligand r k by blast
  have p3: "process_job failing_engine Af3 empty_world plain_job = (fst ?y, Normal)"
    using plain by blast
  show ?thesis
    by (intro conjI) (fact sample_jobs s1 s2 r k p1 p2 p3)+
qed

theorem secondary_job_definition_witness:
  "name_field ligand_job = Some ''Job1'' \<and> fst (skip_check busy_world ''Job1'') = False
   \<and> list_ex has_ligand (get_sequences ligand_job)
   \<and> fst (scored_engine (Some (Num (4/5))) (Some (Num (3/5))) (dump_input Server ligand_job)
             (output_dir busy_world))
   \<and> read_file (snd (scored_engine (Some (Num (4/5))) (Some (Num (3/5)))
                        (dump_input Server ligand_job) (output_dir busy_world)))
        (lower ''Job1'') (lower ''Job1'' @ ''_data.json'') = Some (Object ligand_job)
   \<and> engine_runs_during busy_world
        (fst (process_job (scored_engine (Some (Num (4/5))) (Some (Num (3/5)))) Server busy_world
               ligand_job))
       = [Listed [ligand_job],
          Listed [\<lparr>name_field = Some ''Job1_without_ligands'',
                    sequences_field = Some [protein_component, protein_component],
                    ranking_score_field = None,
                    other_fields = [(''modelSeeds'', JArr [JNum 1])]\<rparr>]]"
proof -
  let ?eng = "scored_engine (Some (Num (4/5))) (Some (Num (3/5)))"
  let ?r = "?eng (dump_input Server ligand_job) (output_dir busy_world)"
  have s: "fst (skip_check busy_world ''Job1'') = False"
    by (simp add: skip_check_def is_in_processing_def busy_world_def text_defs)
  have f: "fst ?r"
    by (simp add: scored_engine_def sample_engine_def payload_job_def dump_input_def)
  then have e: "?r = (True, snd ?r)"
    by (simp add: prod_eq_iff)
  have d: "read_file (snd ?r) (lower ''Job1'') (lower ''Job1'' @ ''_data.json'')
             = Some (Object ligand_job)"
    by (simp add: scored_engine_def sample_engine_defs dump_input_def read_file_def)
  from secondary_job_definition
         [where eng = ?eng and w = busy_world, OF sample_jobs(1) s sample_jobs(3) e d sample_jobs(1)]
  obtain d' where r: "engine_runs_during busy_world (fst (process_job ?eng Server busy_world ligand_job))
                 = [dump_input Server ligand_job, dump_input Server d']"
    and "name_field d' = Some (''Job1'' @ ''_without_ligands'')"
    and "sequences_field d' = Some (filter (\<lambda>seq. \<not> has_ligand seq) (get_sequences ligand_job))"
    and "ranking_score_field d' = ranking_score_field ligand_job"
    and "other_fields d' = other_fields ligand_job"
    by blast
  then have "d' = \<lparr>name_field = Some ''Job1_without_ligands'',
                    sequences_field = Some [protein_component, protein_component],
                    ranking_score_field = None,
                    other_fields = [(''modelSeeds'', JArr [JNum 1])]\<rparr>"
    by (cases d')
       (simp add: ligand_job_def get_sequences_def has_ligand_def protein_component_def
          ligand_component_def)
  with r s f d show ?thesis
    by (simp add: dump_input_def)
qed

end
